theory Spec2Isabelle
  imports Main "HOL-Library.Word" "HOL-Library.Signed_Division" "HOL-Library.Multiset"
begin

section \<open>Transaction authoring in dcrlibwallet\<close>

text \<open>
  A shallow embedding of \<^verbatim>\<open>ParseOutputsAndChangeDestination\<close>,
  \<^verbatim>\<open>calculateChangeScriptSize\<close>, \<^verbatim>\<open>calculateMultipleChangeScriptSize\<close> and
  \<^verbatim>\<open>constructCustomTransaction\<close> of \<^verbatim>\<open>multiwallet.go\<close>.

  Go's \<^verbatim>\<open>int64\<close> (and \<^verbatim>\<open>dcrutil.Amount\<close>) is a 64-bit word: \<open>+\<close> and \<open>-\<close> wrap,
  comparisons are the signed ones (\<open>word_sless\<close>, \<open>word_sle\<close>). Go's \<^verbatim>\<open>int\<close> is
  only used for byte counts of scripts and transactions that are held in memory;
  it is modelled as \<open>int\<close>. An error return is a value \<open>Inl e\<close>.
\<close>

subsection \<open>Data\<close>

type_synonym int64 = "64 word"
type_synonym byte = "8 word"

record TransactionDestination =
  Address :: string
  AtomAmount :: int64
  SendMax :: bool

text \<open>\<^verbatim>\<open>wire.TxOut\<close> and the two fields of \<^verbatim>\<open>wire.TxIn\<close> that the author reads.\<close>

record TxOut =
  Value :: int64
  Version :: nat
  PkScript :: "byte list"

record TxIn =
  ValueIn :: int64
  SignatureScript :: "byte list"

text \<open>
  \<^verbatim>\<open>wire.MsgTx\<close>; its fields \<^verbatim>\<open>SerType\<close> and \<^verbatim>\<open>Version\<close>, which the author
  sets to constants, are left out.
\<close>

record MsgTx =
  TxIn :: "TxIn list"
  TxOut :: "TxOut list"
  LockTime :: nat
  Expiry :: nat

record AuthoredTx =
  Tx :: MsgTx
  TotalInput :: int64
  EstimatedSignedSerializeSize :: int

text \<open>
  The errors of the two functions, named after the taxonomy of the specification;
  the source builds them as messages:
  \<^item> \<open>InvalidAmount\<close>: \<^verbatim>\<open>errors.E(errors.Invalid, "invalid amount")\<close>;
  \<^item> \<open>MultipleMaxAmountRecipients\<close>: "cannot send max amount to multiple recipients";
  \<^item> \<open>MakeTxOutputError\<close>: "make tx output error: ...";
  \<^item> \<open>ConflictingChangeSpecification\<close>: "no change is generated when sending max amount,
    change destinations must not be provided";
  \<^item> \<open>ChangeAddressGenerationFailed\<close>: "error generating internal address to use as change: ...";
  \<^item> \<open>ChangeAddressError\<close>: "change address error: ...";
  \<^item> \<open>InsufficientFunds\<close>: "total send amount plus tx fee is higher than the total input
    amount by ...", with the shortfall;
  \<^item> \<open>ScriptTooLarge\<close>: "script size exceed maximum bytes pushable to the stack";
  \<^item> \<open>ChangeAllocationExceedsAvailable\<close>: "total amount allocated to change addresses (...)
    is higher than actual change amount for transaction (...)", with both amounts.
\<close>

datatype error =
    InvalidAmount
  | MultipleMaxAmountRecipients
  | MakeTxOutputError string
  | ConflictingChangeSpecification
  | ChangeAddressGenerationFailed string
  | ChangeAddressError string
  | InsufficientFunds int64
  | ScriptTooLarge
  | ChangeAllocationExceedsAvailable int64 int64

subsection \<open>The imported packages\<close>

text \<open>
  The author calls into \<^verbatim>\<open>dcrd\<close> and \<^verbatim>\<open>dcrwallet\<close> (\<^verbatim>\<open>txsizes\<close>,
  \<^verbatim>\<open>txrules\<close>, \<^verbatim>\<open>txscript\<close>, \<^verbatim>\<open>dcrutil\<close>) and into the address decoder of
  the active network. None of these belongs to the files of the wallet modelled here, so
  they are parameters of the model: every theorem below that mentions an arbitrary
  \<open>lib\<close> holds for every implementation of them.
\<close>

record library =
  EstimateSerializeSize :: "int list \<Rightarrow> TxOut list \<Rightarrow> int \<Rightarrow> int"
  FeeForSerializeSize :: "int64 \<Rightarrow> int \<Rightarrow> int64"
  IsDustAmount :: "int64 \<Rightarrow> int \<Rightarrow> int64 \<Rightarrow> bool"
  DefaultRelayFeePerKb :: int64
  MaxAmount :: int64
  MaxScriptElementSize :: int
  RedeemP2PKHSigScriptSize :: int
  DefaultScriptVersion :: nat
  PkScriptOf :: "string \<Rightarrow> string + byte list"

text \<open>
  Modelled from the spec: \<^verbatim>\<open>txhelper.MakeTxOutput\<close> is not among the sources. A
  \<open>TxOutput\<close> is \<open>{ Value, Script }\<close>, the script being the locking script of the
  address on the network; an address that does not decode is an error.
\<close>

definition MakeTxOutput :: "library \<Rightarrow> string \<Rightarrow> int64 \<Rightarrow> string + TxOut" where
  "MakeTxOutput lib address amountInAtom =
     (case PkScriptOf lib address of
        Inl err \<Rightarrow> Inl err
      | Inr pkScript \<Rightarrow>
          Inr \<lparr>Value = amountInAtom, Version = DefaultScriptVersion lib, PkScript = pkScript\<rparr>)"

text \<open>
  Modelled from the spec: \<^verbatim>\<open>txhelper.MakeTxChangeSource\<close> and its \<^verbatim>\<open>ScriptSize\<close>
  are not among the sources. \<open>changeScriptSize(address, network)\<close> is the byte length
  of the locking script of the address; an address that does not decode is an error.
\<close>

definition MakeTxChangeSource_ScriptSize :: "library \<Rightarrow> string \<Rightarrow> string + int" where
  "MakeTxChangeSource_ScriptSize lib destAddr =
     (case PkScriptOf lib destAddr of
        Inl err \<Rightarrow> Inl err
      | Inr pkScript \<Rightarrow> Inr (int (length pkScript)))"

text \<open>
  Modelled from the spec: \<^verbatim>\<open>txauthor.RandomizeOutputPosition\<close> and the random
  number generator behind it are not among the sources. The position is picked among
  all current positions from an injected source of randomness: \<open>draw\<close> is the raw
  random number of this call, reduced to an index below the number of outputs, and
  the output at \<open>index\<close> changes places with the output at that index.
\<close>

definition RandomizeOutputPosition :: "nat \<Rightarrow> TxOut list \<Rightarrow> nat \<Rightarrow> TxOut list" where
  "RandomizeOutputPosition draw outputs index =
     (let r = draw mod length outputs
      in outputs[r := outputs ! index, index := outputs ! r])"

subsection \<open>The source functions\<close>

definition calculateChangeScriptSize :: "library \<Rightarrow> string \<Rightarrow> error + int" where
  "calculateChangeScriptSize lib changeAddress =
     (case MakeTxChangeSource_ScriptSize lib changeAddress of
        Inl err \<Rightarrow> Inl (ChangeAddressError err)
      | Inr scriptSize \<Rightarrow> Inr scriptSize)"

text \<open>The loop of \<^verbatim>\<open>calculateMultipleChangeScriptSize\<close>, with the running total.\<close>

fun calculateMultipleChangeScriptSize_loop ::
  "library \<Rightarrow> TransactionDestination list \<Rightarrow> int \<Rightarrow> error + int" where
  "calculateMultipleChangeScriptSize_loop lib [] totalChangeScriptSize =
     Inr totalChangeScriptSize"
| "calculateMultipleChangeScriptSize_loop lib (changeDestination # rest) totalChangeScriptSize =
     (case calculateChangeScriptSize lib (Address changeDestination) of
        Inl err \<Rightarrow> Inl err
      | Inr changeScriptSize \<Rightarrow>
          calculateMultipleChangeScriptSize_loop lib rest
            (totalChangeScriptSize + changeScriptSize))"

definition calculateMultipleChangeScriptSize ::
  "library \<Rightarrow> TransactionDestination list \<Rightarrow> error + int" where
  "calculateMultipleChangeScriptSize lib changeDestinations =
     calculateMultipleChangeScriptSize_loop lib changeDestinations 0"

text \<open>
  The loop of \<^verbatim>\<open>ParseOutputsAndChangeDestination\<close>; its state is
  \<open>(outputs, totalSendAmount, maxAmountRecipientAddress)\<close>.
\<close>

type_synonym parsed = "TxOut list \<times> int64 \<times> string"

fun ParseOutputs_loop ::
  "library \<Rightarrow> TransactionDestination list \<Rightarrow> parsed \<Rightarrow> error + parsed" where
  "ParseOutputs_loop lib [] st = Inr st"
| "ParseOutputs_loop lib (destination # rest) (outputs, totalSendAmount, maxAmountRecipientAddress) =
     (if \<not> SendMax destination \<and>
         (word_sle (AtomAmount destination) 0 \<or> word_sless (MaxAmount lib) (AtomAmount destination))
      then Inl InvalidAmount
      else if SendMax destination \<and> maxAmountRecipientAddress \<noteq> []
      then Inl MultipleMaxAmountRecipients
      else if SendMax destination
      then ParseOutputs_loop lib rest (outputs, totalSendAmount, Address destination)
      else
        (case MakeTxOutput lib (Address destination) (AtomAmount destination) of
           Inl err \<Rightarrow> Inl (MakeTxOutputError err)
         | Inr output \<Rightarrow>
             ParseOutputs_loop lib rest
               (outputs @ [output], totalSendAmount + Value output, maxAmountRecipientAddress)))"

definition ParseOutputsAndChangeDestination ::
  "library \<Rightarrow> TransactionDestination list \<Rightarrow> error + parsed" where
  "ParseOutputsAndChangeDestination lib txDestinations =
     ParseOutputs_loop lib txDestinations ([], 0, [])"

text \<open>
  The loop over the change destinations in \<^verbatim>\<open>constructCustomTransaction\<close>; its state
  is \<open>(outputs, totalChangeAmount)\<close>. \<open>rnd\<close> is the injected source of randomness and
  \<open>k\<close> counts the numbers drawn from it so far.
\<close>

fun changeOutputs_loop ::
  "library \<Rightarrow> (nat \<Rightarrow> nat) \<Rightarrow> nat \<Rightarrow> TransactionDestination list \<Rightarrow>
     TxOut list \<times> int64 \<Rightarrow> error + TxOut list \<times> int64" where
  "changeOutputs_loop lib rnd k [] st = Inr st"
| "changeOutputs_loop lib rnd k (changeDestination # rest) (outputs, totalChangeAmount) =
     (case MakeTxOutput lib (Address changeDestination) (AtomAmount changeDestination) of
        Inl err \<Rightarrow> Inl (ChangeAddressError err)
      | Inr changeOutput \<Rightarrow>
          (let outputs1 = outputs @ [changeOutput];
               changeOutputIndex = length outputs1 - 1
           in changeOutputs_loop lib rnd (Suc k) rest
                (RandomizeOutputPosition (rnd k) outputs1 changeOutputIndex,
                 totalChangeAmount + Value changeOutput)))"

text \<open>
  Lines 532 to 566 of the closure: parsing, the check of the change mode, the change
  address, and the size of the change script. \<open>nextInternalAddress\<close> is what the
  provider of change addresses answers when it is asked. The result is
  \<open>(outputs, totalSendAmount, maxAmountRecipientAddress, changeScriptSize)\<close>.
\<close>

definition prepareChange ::
  "library \<Rightarrow> string + string \<Rightarrow> TransactionDestination list \<Rightarrow> TransactionDestination list \<Rightarrow>
     error + TxOut list \<times> int64 \<times> string \<times> int" where
  "prepareChange lib nextInternalAddress sendDestinations changeDestinations =
     (case ParseOutputsAndChangeDestination lib sendDestinations of
        Inl err \<Rightarrow> Inl err
      | Inr (outputs, totalSendAmount, maxAmountRecipientAddress0) \<Rightarrow>
          if maxAmountRecipientAddress0 \<noteq> [] \<and> length changeDestinations > 0
          then Inl ConflictingChangeSpecification
          else
            (case (if maxAmountRecipientAddress0 = [] \<and> length changeDestinations = 0
                   then (case nextInternalAddress of
                           Inl err \<Rightarrow> Inl (ChangeAddressGenerationFailed err)
                         | Inr address \<Rightarrow> Inr address)
                   else Inr maxAmountRecipientAddress0) of
               Inl err \<Rightarrow> Inl err
             | Inr maxAmountRecipientAddress \<Rightarrow>
                 (case (if maxAmountRecipientAddress \<noteq> []
                        then calculateChangeScriptSize lib maxAmountRecipientAddress
                        else calculateMultipleChangeScriptSize lib changeDestinations) of
                    Inl err \<Rightarrow> Inl err
                  | Inr changeScriptSize \<Rightarrow>
                      Inr (outputs, totalSendAmount, maxAmountRecipientAddress, changeScriptSize))))"

text \<open>The loop over the inputs (lines 550 to 556).\<close>

definition totalInputAmountOf :: "TxIn list \<Rightarrow> int64" where
  "totalInputAmountOf inputs = foldl (\<lambda>total input. total + ValueIn input) 0 inputs"

definition inputScriptSizesOf :: "library \<Rightarrow> TxIn list \<Rightarrow> int list" where
  "inputScriptSizesOf lib inputs = map (\<lambda>input. RedeemP2PKHSigScriptSize lib) inputs"

text \<open>Lines 568 to 570: the size with the change slot, its fee, and the change.\<close>

definition maxSignedSizeOf :: "library \<Rightarrow> TxIn list \<Rightarrow> TxOut list \<Rightarrow> int \<Rightarrow> int" where
  "maxSignedSizeOf lib inputs outputs changeScriptSize =
     EstimateSerializeSize lib (inputScriptSizesOf lib inputs) outputs changeScriptSize"

definition maxRequiredFeeOf :: "library \<Rightarrow> TxIn list \<Rightarrow> TxOut list \<Rightarrow> int \<Rightarrow> int64" where
  "maxRequiredFeeOf lib inputs outputs changeScriptSize =
     FeeForSerializeSize lib (DefaultRelayFeePerKb lib)
       (maxSignedSizeOf lib inputs outputs changeScriptSize)"

definition changeAmountOf ::
  "library \<Rightarrow> TxIn list \<Rightarrow> TxOut list \<Rightarrow> int64 \<Rightarrow> int \<Rightarrow> int64" where
  "changeAmountOf lib inputs outputs totalSendAmount changeScriptSize =
     totalInputAmountOf inputs - totalSendAmount
       - maxRequiredFeeOf lib inputs outputs changeScriptSize"

definition authoredTx :: "TxIn list \<Rightarrow> TxOut list \<Rightarrow> int64 \<Rightarrow> int \<Rightarrow> AuthoredTx" where
  "authoredTx inputs outputs totalInputAmount maxSignedSize =
     \<lparr>Tx = \<lparr>TxIn = inputs, TxOut = outputs, LockTime = 0, Expiry = 0\<rparr>,
      TotalInput = totalInputAmount,
      EstimatedSignedSerializeSize = maxSignedSize\<rparr>"

text \<open>
  Lines 584 to 590: with a max-amount recipient (named in the request, or the generated
  change address), it is the one change destination and receives the whole change.
\<close>

definition changeDestinationsFor ::
  "string \<Rightarrow> int64 \<Rightarrow> TransactionDestination list \<Rightarrow> TransactionDestination list" where
  "changeDestinationsFor maxAmountRecipientAddress changeAmount changeDestinations =
     (if maxAmountRecipientAddress \<noteq> []
      then [\<lparr>Address = maxAmountRecipientAddress, AtomAmount = changeAmount, SendMax = False\<rparr>]
      else changeDestinations)"

text \<open>Lines 568 to 634: fee, change, dust, change outputs, and the result.\<close>

definition finishTransaction ::
  "library \<Rightarrow> (nat \<Rightarrow> nat) \<Rightarrow> TxIn list \<Rightarrow> TransactionDestination list \<Rightarrow>
     TxOut list \<times> int64 \<times> string \<times> int \<Rightarrow> error + AuthoredTx" where
  "finishTransaction lib rnd inputs changeDestinations prepared =
     (case prepared of (outputs, totalSendAmount, maxAmountRecipientAddress, changeScriptSize) \<Rightarrow>
        (let totalInputAmount = totalInputAmountOf inputs;
             maxSignedSize = maxSignedSizeOf lib inputs outputs changeScriptSize;
             changeAmount = changeAmountOf lib inputs outputs totalSendAmount changeScriptSize
         in if word_sless changeAmount 0
            then Inl (InsufficientFunds (0 - changeAmount))
            else if changeAmount \<noteq> 0 \<and>
                    \<not> IsDustAmount lib changeAmount changeScriptSize (DefaultRelayFeePerKb lib)
            then
              (if changeScriptSize > MaxScriptElementSize lib
               then Inl ScriptTooLarge
               else
                 (let changeDestinations1 =
                        changeDestinationsFor maxAmountRecipientAddress changeAmount
                          changeDestinations
                  in case changeOutputs_loop lib rnd 0 changeDestinations1 (outputs, 0) of
                       Inl err \<Rightarrow> Inl err
                     | Inr (outputs1, totalChangeAmount) \<Rightarrow>
                         if word_sless changeAmount totalChangeAmount
                         then Inl (ChangeAllocationExceedsAvailable totalChangeAmount changeAmount)
                         else Inr (authoredTx inputs outputs1 totalInputAmount maxSignedSize)))
            else Inr (authoredTx inputs outputs totalInputAmount
                        (EstimateSerializeSize lib (inputScriptSizesOf lib inputs) outputs 0))))"

definition constructCustomTransaction ::
  "library \<Rightarrow> (nat \<Rightarrow> nat) \<Rightarrow> string + string \<Rightarrow> TxIn list \<Rightarrow>
     TransactionDestination list \<Rightarrow> TransactionDestination list \<Rightarrow> error + AuthoredTx" where
  "constructCustomTransaction lib rnd nextInternalAddress inputs sendDestinations changeDestinations =
     (case prepareChange lib nextInternalAddress sendDestinations changeDestinations of
        Inl err \<Rightarrow> Inl err
      | Inr prepared \<Rightarrow> finishTransaction lib rnd inputs changeDestinations prepared)"

subsection \<open>The packages as published, and a test network\<close>

text \<open>
  Modelled from the spec: \<^verbatim>\<open>txsizes.EstimateSerializeSize\<close>, \<^verbatim>\<open>txrules.FeeForSerializeSize\<close>,
  \<^verbatim>\<open>txrules.IsDustAmount\<close> and the constants of \<^verbatim>\<open>dcrd\<close> and \<^verbatim>\<open>dcrwallet\<close> are not
  among the sources. The size estimate sums the per-input cost, the per-output cost
  (value, script version, varint-prefixed script) and the envelope (version, locktime,
  expiry, input and output counts), with one more output slot when the change script
  size is positive; the fee scales linearly with the size; an output is dust when three
  times the fee to spend it exceeds its value. The byte costs and constants are those of
  the Decred packages. These definitions are one instance of \<open>library\<close>; they are used
  for the concrete runs only.
\<close>

definition VarIntSerializeSize :: "int \<Rightarrow> int" where
  "VarIntSerializeSize val =
     (if val < 0xfd then 1 else if val \<le> 0xffff then 3 else if val \<le> 0xffffffff then 5 else 9)"

definition EstimateInputSize :: "int \<Rightarrow> int" where
  "EstimateInputSize scriptSize =
     32 + 1 + 4 + 4 + 8 + 4 + 4 + VarIntSerializeSize scriptSize + scriptSize"

definition EstimateOutputSize :: "int \<Rightarrow> int" where
  "EstimateOutputSize scriptSize = 8 + 2 + VarIntSerializeSize scriptSize + scriptSize"

definition TxOut_SerializeSize :: "TxOut \<Rightarrow> int" where
  "TxOut_SerializeSize out =
     8 + 2 + VarIntSerializeSize (int (length (PkScript out))) + int (length (PkScript out))"

text \<open>
  Modelled from the spec: \<^verbatim>\<open>txsizes.EstimateSerializeSize\<close> is not among the sources.
  Inputs, outputs and envelope are summed, and one output slot of the size of the change
  script is added when that size is positive.
\<close>

definition dcr_EstimateSerializeSize :: "int list \<Rightarrow> TxOut list \<Rightarrow> int \<Rightarrow> int" where
  "dcr_EstimateSerializeSize scriptSizes txOuts changeScriptSize =
     (let txInsSize = sum_list (map EstimateInputSize scriptSizes);
          inputCount = int (length scriptSizes);
          changeSize = (if changeScriptSize > 0 then EstimateOutputSize changeScriptSize else 0);
          outputCount = (if changeScriptSize > 0 then int (length txOuts) + 1
                         else int (length txOuts))
      in 12 + 2 * VarIntSerializeSize inputCount + VarIntSerializeSize outputCount
           + txInsSize + sum_list (map TxOut_SerializeSize txOuts) + changeSize)"

text \<open>Go's \<^verbatim>\<open>/\<close> on \<^verbatim>\<open>int64\<close> truncates towards zero.\<close>

definition int64_div :: "int64 \<Rightarrow> int64 \<Rightarrow> int64" where
  "int64_div a b = word_of_int (sint a sdiv sint b)"

definition dcr_MaxAmount :: int64 where
  "dcr_MaxAmount = 2100000000000000"

text \<open>
  Modelled from the spec: \<^verbatim>\<open>txrules.FeeForSerializeSize\<close> is not among the sources.
  The fee is the rate per 1000 bytes times the size, at least the rate when the rate is
  positive, and capped by the maximum amount.
\<close>

definition dcr_FeeForSerializeSize :: "int64 \<Rightarrow> int \<Rightarrow> int64" where
  "dcr_FeeForSerializeSize relayFeePerKb txSerializeSize =
     (let fee0 = int64_div (relayFeePerKb * word_of_int txSerializeSize) 1000;
          fee1 = (if fee0 = 0 \<and> word_sless 0 relayFeePerKb then relayFeePerKb else fee0)
      in if word_sless fee1 0 \<or> word_sless dcr_MaxAmount fee1 then dcr_MaxAmount else fee1)"

text \<open>
  Modelled from the spec: \<^verbatim>\<open>txrules.IsDustAmount\<close> is not among the sources. An
  output is dust when three times the fee for the bytes of the output and of an input
  that spends it (165 bytes) exceeds its value.
\<close>

definition dcr_IsDustAmount :: "int64 \<Rightarrow> int \<Rightarrow> int64 \<Rightarrow> bool" where
  "dcr_IsDustAmount amount scriptSize relayFeePerKb =
     (let totalSize = 8 + 2 + VarIntSerializeSize scriptSize + scriptSize + 165
      in word_sless (int64_div (amount * 1000) (3 * word_of_int totalSize)) relayFeePerKb)"

text \<open>
  The decoder of a test network with four addresses: three pay-to-pubkey-hash
  addresses, whose locking script has 25 bytes, and one address with a locking script
  of 2049 bytes, one byte more than fits in a push.
\<close>

definition p2pkhScript :: "byte \<Rightarrow> byte list" where
  "p2pkhScript h = [0x76, 0xa9, 0x14] @ replicate 20 h @ [0x88, 0xac]"

definition test_PkScriptOf :: "string \<Rightarrow> string + byte list" where
  "test_PkScriptOf address =
     (if address = ''DsAlice'' then Inr (p2pkhScript 1)
      else if address = ''DsBob'' then Inr (p2pkhScript 2)
      else if address = ''DsChange'' then Inr (p2pkhScript 3)
      else if address = ''DsWide'' then Inr (replicate 2049 0x51)
      else Inl ''invalid address'')"

definition dcrLibrary :: library where
  "dcrLibrary =
     \<lparr>EstimateSerializeSize = dcr_EstimateSerializeSize,
      FeeForSerializeSize = dcr_FeeForSerializeSize,
      IsDustAmount = dcr_IsDustAmount,
      DefaultRelayFeePerKb = 10000,
      MaxAmount = dcr_MaxAmount,
      MaxScriptElementSize = 2048,
      RedeemP2PKHSigScriptSize = 108,
      DefaultScriptVersion = 0,
      PkScriptOf = test_PkScriptOf\<rparr>"

definition payTo :: "string \<Rightarrow> int64 \<Rightarrow> TransactionDestination" where
  "payTo address amount = \<lparr>Address = address, AtomAmount = amount, SendMax = False\<rparr>"

definition sendMaxTo :: "string \<Rightarrow> TransactionDestination" where
  "sendMaxTo address = \<lparr>Address = address, AtomAmount = 0, SendMax = True\<rparr>"

definition inputOf :: "int64 \<Rightarrow> TxIn" where
  "inputOf v = \<lparr>ValueIn = v, SignatureScript = []\<rparr>"

definition p2pkhOutput :: "int64 \<Rightarrow> byte \<Rightarrow> TxOut" where
  "p2pkhOutput v h = \<lparr>Value = v, Version = 0, PkScript = p2pkhScript h\<rparr>"

subsection \<open>Notions for the statements\<close>

text \<open>
  The outputs that \<^verbatim>\<open>MakeTxOutput\<close> makes for a list of destinations, in their order
  (a destination whose address does not decode makes none).
\<close>

definition madeOutputs :: "library \<Rightarrow> TransactionDestination list \<Rightarrow> TxOut list" where
  "madeOutputs lib ds =
     concat (map (\<lambda>d. case MakeTxOutput lib (Address d) (AtomAmount d) of
                         Inl err \<Rightarrow> []
                       | Inr out \<Rightarrow> [out]) ds)"

definition paymentDestinations :: "TransactionDestination list \<Rightarrow> TransactionDestination list" where
  "paymentDestinations ds = filter (\<lambda>d. \<not> SendMax d) ds"

subsection \<open>Inputs are passed through\<close>

lemma finishTransaction_inputs:
  assumes "finishTransaction lib rnd inputs changeDestinations prepared = Inr tx"
  shows "TotalInput tx = totalInputAmountOf inputs \<and> TxIn (Tx tx) = inputs"
  using assms
  by (auto simp: finishTransaction_def authoredTx_def Let_def
           split: prod.splits if_splits sum.splits)

lemma totalInputAmountOf_sum_list:
  "totalInputAmountOf inputs = sum_list (map ValueIn inputs)"
proof -
  have "foldl (\<lambda>total input. total + ValueIn input) acc inputs
        = acc + sum_list (map ValueIn inputs)" for acc
    by (induction inputs arbitrary: acc) (simp_all add: add.assoc)
  from this [of 0] show ?thesis by (simp add: totalInputAmountOf_def)
qed

subsection \<open>Running the model on concrete requests\<close>

lemmas parse_eval = ParseOutputsAndChangeDestination_def dcrLibrary_def payTo_def sendMaxTo_def
  MakeTxOutput_def test_PkScriptOf_def dcr_MaxAmount_def p2pkhOutput_def p2pkhScript_def
  word_sle_eq word_sless_alt

lemmas prepare_eval = prepareChange_def calculateChangeScriptSize_def
  calculateMultipleChangeScriptSize_def MakeTxChangeSource_ScriptSize_def

lemmas finish_eval = constructCustomTransaction_def finishTransaction_def changeAmountOf_def
  maxRequiredFeeOf_def maxSignedSizeOf_def inputScriptSizesOf_def totalInputAmountOf_def
  inputOf_def authoredTx_def RandomizeOutputPosition_def changeDestinationsFor_def
  dcr_EstimateSerializeSize_def dcr_FeeForSerializeSize_def dcr_IsDustAmount_def int64_div_def
  VarIntSerializeSize_def EstimateInputSize_def EstimateOutputSize_def TxOut_SerializeSize_def

subsection \<open>The parser\<close>

text \<open>Parsing a list is parsing a prefix and going on from the state it leaves.\<close>

lemma ParseOutputs_loop_append:
  "ParseOutputs_loop lib (xs @ ys) st =
     (case ParseOutputs_loop lib xs st of
        Inl err \<Rightarrow> Inl err
      | Inr st' \<Rightarrow> ParseOutputs_loop lib ys st')"
  by (induction lib xs st rule: ParseOutputs_loop.induct) (auto split: sum.splits)

text \<open>
  Once a max-amount recipient with a non-empty address has been seen, the recorded
  address is non-empty for the rest of a successful run.
\<close>

lemma ParseOutputs_loop_max:
  assumes "ParseOutputs_loop lib ds (outs, t, m) = Inr (outs', t', m')"
    and "m \<noteq> [] \<or> (\<exists>d\<in>set ds. SendMax d \<and> Address d \<noteq> [])"
  shows "m' \<noteq> []"
  using assms
proof (induction ds arbitrary: outs t m)
  case Nil
  then show ?case by simp
next
  case (Cons d ds)
  show ?case
  proof (cases "SendMax d")
    case True
    with Cons.prems(1) have m: "m = []"
      and run: "ParseOutputs_loop lib ds (outs, t, Address d) = Inr (outs', t', m')"
      by (auto split: if_splits)
    from Cons.prems(2) m have "Address d \<noteq> [] \<or> (\<exists>d\<in>set ds. SendMax d \<and> Address d \<noteq> [])"
      by auto
    with Cons.IH [OF run] show ?thesis .
  next
    case False
    with Cons.prems(1) obtain out where
      run: "ParseOutputs_loop lib ds (outs @ [out], t + Value out, m) = Inr (outs', t', m')"
      by (auto split: if_splits sum.splits)
    from Cons.prems(2) False have "m \<noteq> [] \<or> (\<exists>d\<in>set ds. SendMax d \<and> Address d \<noteq> [])"
      by auto
    with Cons.IH [OF run] show ?thesis .
  qed
qed

text \<open>
  The recorded address doubles as the flag for "a max-amount recipient was seen": a
  destination marked \<open>SendMax\<close> with an empty address leaves no trace, and a later one
  is accepted.
\<close>

lemma SendMax_with_empty_address_not_recorded:
  "ParseOutputsAndChangeDestination dcrLibrary [sendMaxTo [], sendMaxTo ''DsBob''] =
     Inr ([], 0, ''DsBob'')"
  by (simp add: parse_eval)

lemma madeOutputs_Nil: "madeOutputs lib [] = []"
  by (simp add: madeOutputs_def)

lemma madeOutputs_Cons:
  "madeOutputs lib (d # ds) =
     (case MakeTxOutput lib (Address d) (AtomAmount d) of
        Inl err \<Rightarrow> madeOutputs lib ds
      | Inr out \<Rightarrow> out # madeOutputs lib ds)"
  by (simp add: madeOutputs_def split: sum.splits)

lemma MakeTxOutput_Value: "MakeTxOutput lib address amount = Inr out \<Longrightarrow> Value out = amount"
  by (auto simp: MakeTxOutput_def split: sum.splits)

text \<open>What a successful run of the parser returns.\<close>

lemma ParseOutputs_loop_outputs:
  assumes "ParseOutputs_loop lib ds (outs, t, m) = Inr (outs', t', m')"
  shows "outs' = outs @ madeOutputs lib (paymentDestinations ds) \<and>
         t' = t + sum_list (map Value (madeOutputs lib (paymentDestinations ds))) \<and>
         map Value (madeOutputs lib (paymentDestinations ds)) =
           map AtomAmount (paymentDestinations ds)"
  using assms
proof (induction ds arbitrary: outs t m)
  case Nil
  then show ?case by (simp add: paymentDestinations_def madeOutputs_Nil)
next
  case (Cons d ds)
  show ?case
  proof (cases "SendMax d")
    case True
    with Cons.prems have "ParseOutputs_loop lib ds (outs, t, Address d) = Inr (outs', t', m')"
      by (auto split: if_splits)
    from Cons.IH [OF this] True show ?thesis by (simp add: paymentDestinations_def)
  next
    case False
    with Cons.prems obtain out where
      mk: "MakeTxOutput lib (Address d) (AtomAmount d) = Inr out" and
      run: "ParseOutputs_loop lib ds (outs @ [out], t + Value out, m) = Inr (outs', t', m')"
      by (auto split: if_splits sum.splits)
    from Cons.IH [OF run] False mk MakeTxOutput_Value [OF mk] show ?thesis
      by (simp add: paymentDestinations_def madeOutputs_Cons add.assoc)
  qed
qed

lemma Parse_outputs:
  assumes "ParseOutputsAndChangeDestination lib ds = Inr (outputs, totalSend, m)"
  shows "outputs = madeOutputs lib (paymentDestinations ds) \<and>
         sum_list (map Value outputs) = totalSend \<and>
         map Value outputs = map AtomAmount (paymentDestinations ds)"
  using ParseOutputs_loop_outputs [OF assms [unfolded ParseOutputsAndChangeDestination_def]]
  by simp

lemma prepareChange_Parse:
  assumes "prepareChange lib nia sends changes = Inr (outputs, totalSend, maxAddr, css)"
  shows "\<exists>m. ParseOutputsAndChangeDestination lib sends = Inr (outputs, totalSend, m)"
  using assms
  by (auto simp: prepareChange_def split: sum.splits prod.splits if_splits)

text \<open>
  Claim C4, as the code has it. A list with two destinations marked \<open>SendMax\<close>, the
  earlier one with a non-empty address, is never parsed: \<open>d2\<close> is such a later
  destination and \<open>pre\<close> the destinations before it. The error is the one for multiple
  max-amount recipients when the destinations before \<open>d2\<close> are accepted, and the error
  of those destinations otherwise (an invalid amount or an address that does not
  decode is reported first).
\<close>

theorem C4_second_SendMax_rejected:
  assumes "txDestinations = pre @ d2 # post" and "SendMax d2"
    and "d1 \<in> set pre" and "SendMax d1" and "Address d1 \<noteq> []"
  shows "(\<exists>err. ParseOutputsAndChangeDestination lib txDestinations = Inl err) \<and>
         (\<forall>st. ParseOutputsAndChangeDestination lib pre = Inr st \<longrightarrow>
            ParseOutputsAndChangeDestination lib txDestinations = Inl MultipleMaxAmountRecipients) \<and>
         (\<forall>err. ParseOutputsAndChangeDestination lib pre = Inl err \<longrightarrow>
            ParseOutputsAndChangeDestination lib txDestinations = Inl err)"
proof -
  let ?init = "([], 0, []) :: parsed"
  have split: "ParseOutputs_loop lib txDestinations ?init =
      (case ParseOutputs_loop lib pre ?init of
         Inl err \<Rightarrow> Inl err
       | Inr st' \<Rightarrow> ParseOutputs_loop lib (d2 # post) st')"
    unfolding assms(1) by (rule ParseOutputs_loop_append)
  have second: "ParseOutputs_loop lib (d2 # post) st = Inl MultipleMaxAmountRecipients"
    if "ParseOutputs_loop lib pre ?init = Inr st" for st
  proof -
    obtain outs t m where st: "st = (outs, t, m)" by (cases st)
    from assms(3-5) have "[] \<noteq> ([]::string) \<or> (\<exists>d\<in>set pre. SendMax d \<and> Address d \<noteq> [])"
      by blast
    with that [unfolded st] have "m \<noteq> []"
      by (rule ParseOutputs_loop_max)
    with assms(2) show ?thesis by (simp add: st)
  qed
  show ?thesis
    unfolding ParseOutputsAndChangeDestination_def split
    by (cases "ParseOutputs_loop lib pre ?init") (simp_all add: second)
qed

theorem C4_witness:
  "ParseOutputsAndChangeDestination dcrLibrary [sendMaxTo ''DsAlice'', payTo ''DsBob'' 5] =
     Inr ([p2pkhOutput 5 2], 5, ''DsAlice'') \<and>
   ParseOutputsAndChangeDestination dcrLibrary
     [sendMaxTo ''DsAlice'', payTo ''DsBob'' 5, sendMaxTo ''DsBob'', payTo ''DsAlice'' 7] =
     Inl MultipleMaxAmountRecipients"
proof -
  have pre: "ParseOutputsAndChangeDestination dcrLibrary [sendMaxTo ''DsAlice'', payTo ''DsBob'' 5] =
     Inr ([p2pkhOutput 5 2], 5, ''DsAlice'')"
    by (simp add: parse_eval)
  have "[sendMaxTo ''DsAlice'', payTo ''DsBob'' 5, sendMaxTo ''DsBob'', payTo ''DsAlice'' 7] =
     [sendMaxTo ''DsAlice'', payTo ''DsBob'' 5] @ sendMaxTo ''DsBob'' # [payTo ''DsAlice'' 7]"
    and "SendMax (sendMaxTo ''DsBob'')"
    and "sendMaxTo ''DsAlice'' \<in> set [sendMaxTo ''DsAlice'', payTo ''DsBob'' 5]"
    and "SendMax (sendMaxTo ''DsAlice'')" and "Address (sendMaxTo ''DsAlice'') \<noteq> []"
    by (simp_all add: sendMaxTo_def)
  from C4_second_SendMax_rejected [OF this, of dcrLibrary] pre show ?thesis by simp
qed

text \<open>
  Claim C4 as stated fails: with two destinations marked \<open>SendMax\<close> and a payment of
  0 before the second one, the parser reports the invalid amount.
\<close>

theorem C4_counterexample:
  "2 \<le> length (filter SendMax [sendMaxTo ''DsAlice'', payTo ''DsBob'' 0, sendMaxTo ''DsBob'']) \<and>
   ParseOutputsAndChangeDestination dcrLibrary
     [sendMaxTo ''DsAlice'', payTo ''DsBob'' 0, sendMaxTo ''DsBob''] = Inl InvalidAmount \<and>
   InvalidAmount \<noteq> MultipleMaxAmountRecipients"
  by (simp add: parse_eval)

text \<open>
  Claim C8, as the code has it. A list with a destination \<open>d\<close> that is not marked
  \<open>SendMax\<close> and whose amount is zero, negative or above the maximum is never parsed.
  The error is the one for an invalid amount when the destinations before \<open>d\<close> are
  accepted, and the error of those destinations otherwise.
\<close>

theorem C8_invalid_amount_rejected:
  assumes "txDestinations = pre @ d # post" and "\<not> SendMax d"
    and "word_sle (AtomAmount d) 0 \<or> word_sless (MaxAmount lib) (AtomAmount d)"
  shows "(\<exists>err. ParseOutputsAndChangeDestination lib txDestinations = Inl err) \<and>
         (\<forall>st. ParseOutputsAndChangeDestination lib pre = Inr st \<longrightarrow>
            ParseOutputsAndChangeDestination lib txDestinations = Inl InvalidAmount) \<and>
         (\<forall>err. ParseOutputsAndChangeDestination lib pre = Inl err \<longrightarrow>
            ParseOutputsAndChangeDestination lib txDestinations = Inl err)"
proof -
  let ?init = "([], 0, []) :: parsed"
  have split: "ParseOutputs_loop lib txDestinations ?init =
      (case ParseOutputs_loop lib pre ?init of
         Inl err \<Rightarrow> Inl err
       | Inr st' \<Rightarrow> ParseOutputs_loop lib (d # post) st')"
    unfolding assms(1) by (rule ParseOutputs_loop_append)
  have here: "ParseOutputs_loop lib (d # post) st = Inl InvalidAmount" for st
    using assms(2,3) by (cases st) simp
  show ?thesis
    unfolding ParseOutputsAndChangeDestination_def split
    by (cases "ParseOutputs_loop lib pre ?init") (simp_all add: here)
qed

theorem C8_witness:
  "ParseOutputsAndChangeDestination dcrLibrary [payTo ''DsAlice'' 5] = Inr ([p2pkhOutput 5 1], 5, []) \<and>
   ParseOutputsAndChangeDestination dcrLibrary [payTo ''DsAlice'' 5, payTo ''DsBob'' 0] =
     Inl InvalidAmount"
proof -
  have pre: "ParseOutputsAndChangeDestination dcrLibrary [payTo ''DsAlice'' 5] =
     Inr ([p2pkhOutput 5 1], 5, [])"
    by (simp add: parse_eval)
  have "[payTo ''DsAlice'' 5, payTo ''DsBob'' 0] = [payTo ''DsAlice'' 5] @ payTo ''DsBob'' 0 # []"
    and "\<not> SendMax (payTo ''DsBob'' 0)"
    and "word_sle (AtomAmount (payTo ''DsBob'' 0)) 0 \<or>
         word_sless (MaxAmount dcrLibrary) (AtomAmount (payTo ''DsBob'' 0))"
    by (simp_all add: payTo_def)
  from C8_invalid_amount_rejected [OF this] pre show ?thesis by simp
qed

text \<open>
  Claim C8 as stated fails: a payment of 0 that comes after a second destination
  marked \<open>SendMax\<close> is not reached, and the error is the one for multiple max-amount
  recipients.
\<close>

theorem C8_counterexample:
  "\<not> SendMax (payTo ''DsBob'' 0) \<and> AtomAmount (payTo ''DsBob'' 0) = 0 \<and>
   ParseOutputsAndChangeDestination dcrLibrary
     [sendMaxTo ''DsAlice'', sendMaxTo ''DsBob'', payTo ''DsBob'' 0] = Inl MultipleMaxAmountRecipients \<and>
   MultipleMaxAmountRecipients \<noteq> InvalidAmount"
  by (simp add: parse_eval)

subsection \<open>The author: checks before the fee\<close>

text \<open>
  Claim C5, as the code has it. When the send destinations are parsed without error,
  one of them is marked \<open>SendMax\<close> with a non-empty address, and change destinations
  are given as well, the call fails with the error for a conflicting change
  specification and returns no transaction.
\<close>

theorem C5_conflicting_change_rejected:
  assumes "ParseOutputsAndChangeDestination lib sendDestinations = Inr parsed"
    and "d \<in> set sendDestinations" and "SendMax d" and "Address d \<noteq> []"
    and "changeDestinations \<noteq> []"
  shows "constructCustomTransaction lib rnd nextInternalAddress inputs sendDestinations
           changeDestinations = Inl ConflictingChangeSpecification"
proof -
  obtain outs t m where parsed: "parsed = (outs, t, m)" by (cases parsed)
  from assms(2-4) have "[] \<noteq> ([]::string) \<or> (\<exists>d\<in>set sendDestinations. SendMax d \<and> Address d \<noteq> [])"
    by blast
  with assms(1) [unfolded parsed ParseOutputsAndChangeDestination_def] have "m \<noteq> []"
    by (rule ParseOutputs_loop_max)
  with assms(1,5) show ?thesis
    by (simp add: constructCustomTransaction_def prepareChange_def parsed)
qed

theorem C5_witness:
  "ParseOutputsAndChangeDestination dcrLibrary [payTo ''DsBob'' 5, sendMaxTo ''DsAlice''] =
     Inr ([p2pkhOutput 5 2], 5, ''DsAlice'') \<and>
   constructCustomTransaction dcrLibrary (\<lambda>k. 0) (Inr ''DsChange'') [inputOf 100000]
     [payTo ''DsBob'' 5, sendMaxTo ''DsAlice''] [payTo ''DsChange'' 7] =
     Inl ConflictingChangeSpecification"
proof -
  have parse: "ParseOutputsAndChangeDestination dcrLibrary [payTo ''DsBob'' 5, sendMaxTo ''DsAlice''] =
     Inr ([p2pkhOutput 5 2], 5, ''DsAlice'')"
    by (simp add: parse_eval)
  have "sendMaxTo ''DsAlice'' \<in> set [payTo ''DsBob'' 5, sendMaxTo ''DsAlice'']"
    and "SendMax (sendMaxTo ''DsAlice'')" and "Address (sendMaxTo ''DsAlice'') \<noteq> []"
    and "[payTo ''DsChange'' 7] \<noteq> []"
    by (simp_all add: sendMaxTo_def)
  from C5_conflicting_change_rejected [OF parse this] parse show ?thesis by simp
qed

text \<open>
  Claim C5 as stated fails: the destinations are parsed first, so a request with a
  \<open>SendMax\<close> destination, explicit change and a payment of 0 fails with the error for
  an invalid amount.
\<close>

theorem C5_counterexample:
  "sendMaxTo ''DsAlice'' \<in> set [sendMaxTo ''DsAlice'', payTo ''DsBob'' 0] \<and>
   SendMax (sendMaxTo ''DsAlice'') \<and> [payTo ''DsChange'' 7] \<noteq> [] \<and>
   constructCustomTransaction dcrLibrary (\<lambda>k. 0) (Inr ''DsChange'') [inputOf 100000]
     [sendMaxTo ''DsAlice'', payTo ''DsBob'' 0] [payTo ''DsChange'' 7] = Inl InvalidAmount \<and>
   InvalidAmount \<noteq> ConflictingChangeSpecification"
  by (simp add: parse_eval prepare_eval finish_eval)

text \<open>
  Claim C9. The transaction of a successful call has the supplied inputs, in their
  order and unchanged, and its \<open>TotalInput\<close> is the sum of their \<open>ValueIn\<close>
  (in \<^verbatim>\<open>int64\<close> arithmetic).
\<close>

theorem C9_inputs_preserved:
  assumes "constructCustomTransaction lib rnd nextInternalAddress inputs sendDestinations
             changeDestinations = Inr tx"
  shows "TotalInput tx = sum_list (map ValueIn inputs) \<and> TxIn (Tx tx) = inputs"
proof -
  from assms obtain prepared where
    "finishTransaction lib rnd inputs changeDestinations prepared = Inr tx"
    by (auto simp: constructCustomTransaction_def split: sum.splits)
  from finishTransaction_inputs [OF this] show ?thesis
    by (simp add: totalInputAmountOf_sum_list)
qed

theorem C9_witness:
  "constructCustomTransaction dcrLibrary (\<lambda>k. 0) (Inr ''DsChange'')
     [inputOf 60000000, inputOf 40000000] [payTo ''DsAlice'' 50000000] [] =
     Inr (authoredTx [inputOf 60000000, inputOf 40000000]
            [p2pkhOutput 49995810 3, p2pkhOutput 50000000 1] 100000000 419) \<and>
   TotalInput (authoredTx [inputOf 60000000, inputOf 40000000]
            [p2pkhOutput 49995810 3, p2pkhOutput 50000000 1] 100000000 419) =
     sum_list (map ValueIn [inputOf 60000000, inputOf 40000000]) \<and>
   TxIn (Tx (authoredTx [inputOf 60000000, inputOf 40000000]
            [p2pkhOutput 49995810 3, p2pkhOutput 50000000 1] 100000000 419)) =
     [inputOf 60000000, inputOf 40000000]"
proof -
  have run: "constructCustomTransaction dcrLibrary (\<lambda>k. 0) (Inr ''DsChange'')
     [inputOf 60000000, inputOf 40000000] [payTo ''DsAlice'' 50000000] [] =
     Inr (authoredTx [inputOf 60000000, inputOf 40000000]
            [p2pkhOutput 49995810 3, p2pkhOutput 50000000 1] 100000000 419)"
    by (simp add: parse_eval prepare_eval finish_eval)
  from C9_inputs_preserved [OF run] run show ?thesis by simp
qed

subsection \<open>The author: fee, change and dust\<close>

text \<open>
  Claim C3. Past the checks of the change mode, when the total input minus the total
  sent minus the fee for the size with the change slot is negative, the call fails
  with the error for insufficient funds, which carries the shortfall
  \<open>fee + totalSend - totalInput\<close>, and returns no transaction; so a call that returns
  a transaction has no negative change.
\<close>

theorem C3_insufficient_funds:
  assumes "prepareChange lib nextInternalAddress sendDestinations changeDestinations =
             Inr (outputs, totalSendAmount, maxAmountRecipientAddress, changeScriptSize)"
  shows "(word_sless (changeAmountOf lib inputs outputs totalSendAmount changeScriptSize) 0 \<longrightarrow>
            constructCustomTransaction lib rnd nextInternalAddress inputs sendDestinations
              changeDestinations =
            Inl (InsufficientFunds
                   (maxRequiredFeeOf lib inputs outputs changeScriptSize + totalSendAmount
                      - totalInputAmountOf inputs))) \<and>
         (\<forall>tx. constructCustomTransaction lib rnd nextInternalAddress inputs sendDestinations
                 changeDestinations = Inr tx \<longrightarrow>
               \<not> word_sless (changeAmountOf lib inputs outputs totalSendAmount changeScriptSize) 0)"
  using assms
  by (auto simp: constructCustomTransaction_def finishTransaction_def Let_def changeAmountOf_def
           split: if_splits)

theorem C3_witness:
  "prepareChange dcrLibrary (Inr ''DsChange'') [payTo ''DsAlice'' 900] [] =
     Inr ([p2pkhOutput 900 1], 900, ''DsChange'', 25) \<and>
   word_sless (changeAmountOf dcrLibrary [inputOf 1000] [p2pkhOutput 900 1] 900 25) 0 \<and>
   constructCustomTransaction dcrLibrary (\<lambda>k. 0) (Inr ''DsChange'') [inputOf 1000]
     [payTo ''DsAlice'' 900] [] = Inl (InsufficientFunds 2430) \<and>
   constructCustomTransaction dcrLibrary (\<lambda>k. 0) (Inr ''DsChange'') [inputOf 100000]
     [payTo ''DsAlice'' 900] [] =
     Inr (authoredTx [inputOf 100000] [p2pkhOutput 96570 3, p2pkhOutput 900 1] 100000 253) \<and>
   \<not> word_sless (changeAmountOf dcrLibrary [inputOf 100000] [p2pkhOutput 900 1] 900 25) 0"
proof -
  have prep: "prepareChange dcrLibrary (Inr ''DsChange'') [payTo ''DsAlice'' 900] [] =
     Inr ([p2pkhOutput 900 1], 900, ''DsChange'', 25)"
    by (simp add: parse_eval prepare_eval)
  have neg: "word_sless (changeAmountOf dcrLibrary [inputOf 1000] [p2pkhOutput 900 1] 900 25) 0"
    by (simp add: parse_eval finish_eval)
  have fee: "maxRequiredFeeOf dcrLibrary [inputOf 1000] [p2pkhOutput 900 1] 25 + 900
               - totalInputAmountOf [inputOf 1000] = 2430"
    by (simp add: parse_eval finish_eval)
  have run: "constructCustomTransaction dcrLibrary (\<lambda>k. 0) (Inr ''DsChange'') [inputOf 100000]
     [payTo ''DsAlice'' 900] [] =
     Inr (authoredTx [inputOf 100000] [p2pkhOutput 96570 3, p2pkhOutput 900 1] 100000 253)"
    by (simp add: parse_eval prepare_eval finish_eval)
  from C3_insufficient_funds [OF prep, of "[inputOf 1000]" "\<lambda>k. 0"]
    C3_insufficient_funds [OF prep, of "[inputOf 100000]" "\<lambda>k. 0"]
    prep neg fee run
  show ?thesis by simp
qed

text \<open>
  Claim C2. When the change is zero or dust, the call either fails for insufficient
  funds (the change is negative) or returns a transaction with the supplied inputs whose
  outputs are exactly the payment outputs of the parser, one per destination not marked
  \<open>SendMax\<close> with its amount, and no change output; its estimated size is the estimate
  for these outputs with no change slot; and what its total input pays beyond its
  outputs is \<open>totalInput - totalSend\<close>.
\<close>

theorem C2_change_dropped:
  assumes "prepareChange lib nextInternalAddress sendDestinations changeDestinations =
             Inr (outputs, totalSendAmount, maxAmountRecipientAddress, changeScriptSize)"
    and "changeAmountOf lib inputs outputs totalSendAmount changeScriptSize = 0 \<or>
         IsDustAmount lib (changeAmountOf lib inputs outputs totalSendAmount changeScriptSize)
           changeScriptSize (DefaultRelayFeePerKb lib)"
  shows "(word_sless (changeAmountOf lib inputs outputs totalSendAmount changeScriptSize) 0 \<longrightarrow>
            constructCustomTransaction lib rnd nextInternalAddress inputs sendDestinations
              changeDestinations =
            Inl (InsufficientFunds
                   (0 - changeAmountOf lib inputs outputs totalSendAmount changeScriptSize))) \<and>
         (\<not> word_sless (changeAmountOf lib inputs outputs totalSendAmount changeScriptSize) 0 \<longrightarrow>
            (\<exists>tx. constructCustomTransaction lib rnd nextInternalAddress inputs sendDestinations
                     changeDestinations = Inr tx \<and>
                   TxIn (Tx tx) = inputs \<and>
                   TxOut (Tx tx) = outputs \<and>
                   TxOut (Tx tx) = madeOutputs lib (paymentDestinations sendDestinations) \<and>
                   map Value (TxOut (Tx tx)) =
                     map AtomAmount (paymentDestinations sendDestinations) \<and>
                   EstimatedSignedSerializeSize tx =
                     EstimateSerializeSize lib
                       (map (\<lambda>input. RedeemP2PKHSigScriptSize lib) inputs) (TxOut (Tx tx)) 0 \<and>
                   TotalInput tx = sum_list (map ValueIn inputs) \<and>
                   TotalInput tx - sum_list (map Value (TxOut (Tx tx))) =
                     sum_list (map ValueIn inputs) - totalSendAmount))"
proof -
  let ?ca = "changeAmountOf lib inputs outputs totalSendAmount changeScriptSize"
  let ?tx = "authoredTx inputs outputs (totalInputAmountOf inputs)
               (EstimateSerializeSize lib (inputScriptSizesOf lib inputs) outputs 0)"
  from prepareChange_Parse [OF assms(1)] obtain m where
    "ParseOutputsAndChangeDestination lib sendDestinations = Inr (outputs, totalSendAmount, m)" ..
  from Parse_outputs [OF this] have
    outs: "outputs = madeOutputs lib (paymentDestinations sendDestinations)" and
    total: "sum_list (map Value outputs) = totalSendAmount" and
    vals: "map Value outputs = map AtomAmount (paymentDestinations sendDestinations)"
    by blast+
  have run: "constructCustomTransaction lib rnd nextInternalAddress inputs sendDestinations
               changeDestinations =
             (if word_sless ?ca 0 then Inl (InsufficientFunds (0 - ?ca)) else Inr ?tx)"
    using assms by (auto simp: constructCustomTransaction_def finishTransaction_def Let_def)
  have fields: "TxIn (Tx ?tx) = inputs" "TxOut (Tx ?tx) = outputs"
    "EstimatedSignedSerializeSize ?tx =
       EstimateSerializeSize lib (map (\<lambda>input. RedeemP2PKHSigScriptSize lib) inputs) outputs 0"
    "TotalInput ?tx = sum_list (map ValueIn inputs)"
    by (simp_all add: authoredTx_def inputScriptSizesOf_def totalInputAmountOf_sum_list)
  show ?thesis
  proof (intro conjI impI)
    assume "word_sless ?ca 0"
    with run show "constructCustomTransaction lib rnd nextInternalAddress inputs sendDestinations
              changeDestinations = Inl (InsufficientFunds (0 - ?ca))"
      by simp
  next
    assume "\<not> word_sless ?ca 0"
    with run have ok: "constructCustomTransaction lib rnd nextInternalAddress inputs
        sendDestinations changeDestinations = Inr ?tx"
      by simp
    have "TxOut (Tx ?tx) = madeOutputs lib (paymentDestinations sendDestinations)"
      using fields(2) outs by simp
    moreover have "map Value (TxOut (Tx ?tx)) =
        map AtomAmount (paymentDestinations sendDestinations)"
      using fields(2) vals by simp
    moreover have "EstimatedSignedSerializeSize ?tx =
        EstimateSerializeSize lib (map (\<lambda>input. RedeemP2PKHSigScriptSize lib) inputs)
          (TxOut (Tx ?tx)) 0"
      using fields(2,3) by simp
    moreover have "TotalInput ?tx - sum_list (map Value (TxOut (Tx ?tx))) =
        sum_list (map ValueIn inputs) - totalSendAmount"
      using fields(2,4) total by simp
    ultimately show "\<exists>tx. constructCustomTransaction lib rnd nextInternalAddress inputs
                     sendDestinations changeDestinations = Inr tx \<and>
                   TxIn (Tx tx) = inputs \<and>
                   TxOut (Tx tx) = outputs \<and>
                   TxOut (Tx tx) = madeOutputs lib (paymentDestinations sendDestinations) \<and>
                   map Value (TxOut (Tx tx)) =
                     map AtomAmount (paymentDestinations sendDestinations) \<and>
                   EstimatedSignedSerializeSize tx =
                     EstimateSerializeSize lib
                       (map (\<lambda>input. RedeemP2PKHSigScriptSize lib) inputs) (TxOut (Tx tx)) 0 \<and>
                   TotalInput tx = sum_list (map ValueIn inputs) \<and>
                   TotalInput tx - sum_list (map Value (TxOut (Tx tx))) =
                     sum_list (map ValueIn inputs) - totalSendAmount"
      using ok fields(1,2,4) by blast
  qed
qed

theorem C2_witness:
  "prepareChange dcrLibrary (Inr ''DsChange'') [payTo ''DsAlice'' 50000] [] =
     Inr ([p2pkhOutput 50000 1], 50000, ''DsChange'', 25) \<and>
   changeAmountOf dcrLibrary [inputOf 52600] [p2pkhOutput 50000 1] 50000 25 = 70 \<and>
   IsDustAmount dcrLibrary 70 25 (DefaultRelayFeePerKb dcrLibrary) \<and>
   (\<exists>tx. constructCustomTransaction dcrLibrary (\<lambda>k. 0) (Inr ''DsChange'') [inputOf 52600]
            [payTo ''DsAlice'' 50000] [] = Inr tx \<and>
         TxIn (Tx tx) = [inputOf 52600] \<and>
         TxOut (Tx tx) = [p2pkhOutput 50000 1] \<and>
         EstimatedSignedSerializeSize tx = 217 \<and>
         TotalInput tx = 52600 \<and>
         TotalInput tx - sum_list (map Value (TxOut (Tx tx))) = 2600)"
proof -
  have prep: "prepareChange dcrLibrary (Inr ''DsChange'') [payTo ''DsAlice'' 50000] [] =
     Inr ([p2pkhOutput 50000 1], 50000, ''DsChange'', 25)"
    by (simp add: parse_eval prepare_eval)
  have ca: "changeAmountOf dcrLibrary [inputOf 52600] [p2pkhOutput 50000 1] 50000 25 = 70"
    by (simp add: parse_eval finish_eval)
  have dust: "IsDustAmount dcrLibrary 70 25 (DefaultRelayFeePerKb dcrLibrary)"
    by (simp add: parse_eval finish_eval)
  have zero_or_dust:
    "changeAmountOf dcrLibrary [inputOf 52600] [p2pkhOutput 50000 1] 50000 25 = 0 \<or>
     IsDustAmount dcrLibrary (changeAmountOf dcrLibrary [inputOf 52600] [p2pkhOutput 50000 1] 50000 25)
       25 (DefaultRelayFeePerKb dcrLibrary)"
    by (simp add: ca dust)
  have nonneg: "\<not> word_sless (changeAmountOf dcrLibrary [inputOf 52600]
                    [p2pkhOutput 50000 1] 50000 25) 0"
    by (simp add: ca word_sless_alt)
  have size: "EstimateSerializeSize dcrLibrary (map (\<lambda>input. RedeemP2PKHSigScriptSize dcrLibrary)
                [inputOf 52600]) [p2pkhOutput 50000 1] 0 = 217"
    by (simp add: parse_eval finish_eval)
  have total: "sum_list (map ValueIn [inputOf 52600]) = 52600"
    by (simp add: inputOf_def)
  from C2_change_dropped [OF prep zero_or_dust, of "\<lambda>k. 0"] nonneg
  obtain tx where
    run: "constructCustomTransaction dcrLibrary (\<lambda>k. 0) (Inr ''DsChange'') [inputOf 52600]
            [payTo ''DsAlice'' 50000] [] = Inr tx" and
    ins: "TxIn (Tx tx) = [inputOf 52600]" and
    outs: "TxOut (Tx tx) = [p2pkhOutput 50000 1]" and
    est: "EstimatedSignedSerializeSize tx =
            EstimateSerializeSize dcrLibrary (map (\<lambda>input. RedeemP2PKHSigScriptSize dcrLibrary)
              [inputOf 52600]) (TxOut (Tx tx)) 0" and
    tot: "TotalInput tx = sum_list (map ValueIn [inputOf 52600])" and
    paid: "TotalInput tx - sum_list (map Value (TxOut (Tx tx))) =
             sum_list (map ValueIn [inputOf 52600]) - 50000"
    by blast
  from est outs size have est': "EstimatedSignedSerializeSize tx = 217" by simp
  from tot total have tot': "TotalInput tx = 52600" by simp
  from paid total have paid': "TotalInput tx - sum_list (map Value (TxOut (Tx tx))) = 2600"
    by simp
  from prep ca dust run ins outs est' tot' paid' show ?thesis by blast
qed

subsection \<open>The change outputs\<close>

lemma RandomizeOutputPosition_length:
  "length (RandomizeOutputPosition draw outputs index) = length outputs"
  by (simp add: RandomizeOutputPosition_def Let_def)

lemma RandomizeOutputPosition_mset:
  assumes "index < length outputs"
  shows "mset (RandomizeOutputPosition draw outputs index) = mset outputs"
proof -
  from assms have "0 < length outputs" by arith
  then have "draw mod length outputs < length outputs" by simp
  with assms show ?thesis
    by (simp add: RandomizeOutputPosition_def Let_def mset_swap)
qed

lemma RandomizeOutputPosition_last:
  "RandomizeOutputPosition (length outs) (outs @ [c]) (length outs) = outs @ [c]"
  by (simp add: RandomizeOutputPosition_def Let_def)

lemma RandomizeOutputPosition_first:
  "RandomizeOutputPosition 0 (outs @ [c]) (length outs) ! 0 = c"
  by (cases outs) (simp_all add: RandomizeOutputPosition_def Let_def nth_append)

lemma MakeTxOutput_decodes:
  "(\<exists>out. MakeTxOutput lib address amount = Inr out) \<longleftrightarrow> (\<exists>s. PkScriptOf lib address = Inr s)"
  by (auto simp: MakeTxOutput_def split: sum.splits)

text \<open>What a successful run of the loop over the change destinations returns.\<close>

lemma changeOutputs_loop_result:
  assumes "changeOutputs_loop lib rnd k cds (outs, t) = Inr (outs', t')"
  shows "mset outs' = mset outs + mset (madeOutputs lib cds) \<and>
         t' = t + sum_list (map AtomAmount cds) \<and>
         map Value (madeOutputs lib cds) = map AtomAmount cds \<and>
         length (madeOutputs lib cds) = length cds \<and>
         (\<forall>d\<in>set cds. \<exists>s. PkScriptOf lib (Address d) = Inr s)"
  using assms
proof (induction cds arbitrary: k outs t)
  case Nil
  then show ?case by (simp add: madeOutputs_Nil)
next
  case (Cons d cds)
  from Cons.prems obtain c where
    mk: "MakeTxOutput lib (Address d) (AtomAmount d) = Inr c" and
    run: "changeOutputs_loop lib rnd (Suc k) cds
            (RandomizeOutputPosition (rnd k) (outs @ [c]) (length outs), t + Value c) =
          Inr (outs', t')"
    by (auto simp: Let_def split: sum.splits)
  have "mset (RandomizeOutputPosition (rnd k) (outs @ [c]) (length outs)) = mset (outs @ [c])"
    by (rule RandomizeOutputPosition_mset) simp
  with Cons.IH [OF run] mk MakeTxOutput_Value [OF mk] MakeTxOutput_decodes [of lib "Address d" "AtomAmount d"]
  show ?case
    by (simp add: madeOutputs_Cons add.assoc)
qed

text \<open>The loop succeeds when every change address decodes, whatever the random numbers.\<close>

lemma changeOutputs_loop_succeeds:
  assumes "\<forall>d\<in>set cds. \<exists>s. PkScriptOf lib (Address d) = Inr s"
  shows "\<exists>outs'. changeOutputs_loop lib rnd k cds (outs, t) =
           Inr (outs', t + sum_list (map AtomAmount cds))"
  using assms
proof (induction cds arbitrary: k outs t)
  case Nil
  then show ?case by simp
next
  case (Cons d cds)
  from Cons.prems obtain c where mk: "MakeTxOutput lib (Address d) (AtomAmount d) = Inr c"
    using MakeTxOutput_decodes [of lib "Address d" "AtomAmount d"] by auto
  from Cons.prems have "\<forall>d\<in>set cds. \<exists>s. PkScriptOf lib (Address d) = Inr s" by simp
  from Cons.IH [OF this, of "Suc k" "RandomizeOutputPosition (rnd k) (outs @ [c]) (length outs)"
      "t + Value c"] mk MakeTxOutput_Value [OF mk]
  show ?case by (simp add: Let_def add.assoc)
qed

lemma changeOutputs_loop_append:
  "changeOutputs_loop lib rnd k (xs @ ys) st =
     (case changeOutputs_loop lib rnd k xs st of
        Inl err \<Rightarrow> Inl err
      | Inr st' \<Rightarrow> changeOutputs_loop lib rnd (k + length xs) ys st')"
  by (induction lib rnd k xs st rule: changeOutputs_loop.induct)
     (auto simp: Let_def split: sum.splits)

text \<open>A stream that leaves every change output where it was appended.\<close>

lemma changeOutputs_loop_in_order:
  assumes "\<forall>d\<in>set cds. \<exists>s. PkScriptOf lib (Address d) = Inr s"
    and "length outs = b + k"
  shows "changeOutputs_loop lib (\<lambda>k. b + k) k cds (outs, t) =
           Inr (outs @ madeOutputs lib cds, t + sum_list (map AtomAmount cds))"
  using assms
proof (induction cds arbitrary: k outs t)
  case Nil
  then show ?case by (simp add: madeOutputs_Nil)
next
  case (Cons d cds)
  from Cons.prems obtain c where mk: "MakeTxOutput lib (Address d) (AtomAmount d) = Inr c"
    using MakeTxOutput_decodes [of lib "Address d" "AtomAmount d"] by auto
  from Cons.prems have rest: "\<forall>d\<in>set cds. \<exists>s. PkScriptOf lib (Address d) = Inr s" by simp
  from Cons.prems have stay:
    "RandomizeOutputPosition (b + k) (outs @ [c]) (length outs) = outs @ [c]"
    using RandomizeOutputPosition_last [of outs c] by simp
  from Cons.prems have "length (outs @ [c]) = b + Suc k" by simp
  from Cons.IH [OF rest this, of "t + Value c"] mk MakeTxOutput_Value [OF mk] stay
  show ?case by (simp add: Let_def madeOutputs_Cons add.assoc)
qed

text \<open>A stream of zeros puts the last change output first.\<close>

lemma changeOutputs_loop_last_first:
  assumes "changeOutputs_loop lib (\<lambda>k. 0) k (cds @ [d]) (outs, t) = Inr (outs', t')"
  shows "MakeTxOutput lib (Address d) (AtomAmount d) = Inr (outs' ! 0)"
proof -
  from assms obtain st where
    pre: "changeOutputs_loop lib (\<lambda>k. 0) k cds (outs, t) = Inr st" and
    step: "changeOutputs_loop lib (\<lambda>k. 0) (k + length cds) [d] st = Inr (outs', t')"
    by (auto simp: changeOutputs_loop_append split: sum.splits)
  obtain o1 t1 where st: "st = (o1, t1)" by (cases st)
  from step [unfolded st] obtain c where
    mk: "MakeTxOutput lib (Address d) (AtomAmount d) = Inr c" and
    "outs' = RandomizeOutputPosition 0 (o1 @ [c]) (length o1)"
    by (auto simp: Let_def split: sum.splits)
  with RandomizeOutputPosition_first [of o1 c] show ?thesis by simp
qed

lemma sum_list_Value_mset:
  "mset xs = mset ys \<Longrightarrow> sum_list (map Value xs) = sum_list (map Value ys)"
  by (metis mset_map sum_mset_sum_list)

text \<open>The two ways in which the second half of the closure returns a transaction.\<close>

lemma finishTransaction_Inr:
  assumes "finishTransaction lib rnd inputs changeDestinations
             (outputs, totalSendAmount, maxAmountRecipientAddress, changeScriptSize) = Inr tx"
  shows "\<not> word_sless (changeAmountOf lib inputs outputs totalSendAmount changeScriptSize) 0 \<and>
    (if changeAmountOf lib inputs outputs totalSendAmount changeScriptSize \<noteq> 0 \<and>
        \<not> IsDustAmount lib (changeAmountOf lib inputs outputs totalSendAmount changeScriptSize)
            changeScriptSize (DefaultRelayFeePerKb lib)
     then \<not> changeScriptSize > MaxScriptElementSize lib \<and>
       (\<exists>outputs1 totalChangeAmount.
          changeOutputs_loop lib rnd 0
            (changeDestinationsFor maxAmountRecipientAddress
               (changeAmountOf lib inputs outputs totalSendAmount changeScriptSize)
               changeDestinations) (outputs, 0) = Inr (outputs1, totalChangeAmount) \<and>
          \<not> word_sless (changeAmountOf lib inputs outputs totalSendAmount changeScriptSize)
               totalChangeAmount \<and>
          tx = authoredTx inputs outputs1 (totalInputAmountOf inputs)
                 (maxSignedSizeOf lib inputs outputs changeScriptSize))
     else tx = authoredTx inputs outputs (totalInputAmountOf inputs)
                 (EstimateSerializeSize lib (inputScriptSizesOf lib inputs) outputs 0))"
  using assms
  by (auto simp: finishTransaction_def Let_def split: if_splits sum.splits prod.splits)

lemma finishTransaction_materialised:
  assumes "\<not> word_sless (changeAmountOf lib inputs outputs totalSendAmount changeScriptSize) 0"
    and "changeAmountOf lib inputs outputs totalSendAmount changeScriptSize \<noteq> 0"
    and "\<not> IsDustAmount lib (changeAmountOf lib inputs outputs totalSendAmount changeScriptSize)
            changeScriptSize (DefaultRelayFeePerKb lib)"
    and "\<not> changeScriptSize > MaxScriptElementSize lib"
    and "changeOutputs_loop lib rnd 0
            (changeDestinationsFor maxAmountRecipientAddress
               (changeAmountOf lib inputs outputs totalSendAmount changeScriptSize)
               changeDestinations) (outputs, 0) = Inr (outputs1, totalChangeAmount)"
  shows "finishTransaction lib rnd inputs changeDestinations
             (outputs, totalSendAmount, maxAmountRecipientAddress, changeScriptSize) =
         (if word_sless (changeAmountOf lib inputs outputs totalSendAmount changeScriptSize)
               totalChangeAmount
          then Inl (ChangeAllocationExceedsAvailable totalChangeAmount
                 (changeAmountOf lib inputs outputs totalSendAmount changeScriptSize))
          else Inr (authoredTx inputs outputs1 (totalInputAmountOf inputs)
                 (maxSignedSizeOf lib inputs outputs changeScriptSize)))"
  using assms
  by (simp add: finishTransaction_def Let_def)

lemma constructCustomTransaction_prepared:
  assumes "prepareChange lib nia sends changes = Inr prepared"
  shows "constructCustomTransaction lib rnd nia inputs sends changes =
           finishTransaction lib rnd inputs changes prepared"
  using assms by (simp add: constructCustomTransaction_def)

text \<open>The size of the change scripts, when there are several change destinations.\<close>

lemma calculateMultipleChangeScriptSize_loop_bound:
  assumes "calculateMultipleChangeScriptSize_loop lib cds acc = Inr css"
  shows "acc \<le> css \<and>
         (\<forall>d\<in>set cds. \<exists>s. PkScriptOf lib (Address d) = Inr s \<and> acc + int (length s) \<le> css)"
  using assms
proof (induction cds arbitrary: acc)
  case Nil
  then show ?case by simp
next
  case (Cons d cds)
  from Cons.prems obtain s where
    s: "PkScriptOf lib (Address d) = Inr s" and
    run: "calculateMultipleChangeScriptSize_loop lib cds (acc + int (length s)) = Inr css"
    by (auto simp: calculateChangeScriptSize_def MakeTxChangeSource_ScriptSize_def
             split: sum.splits)
  from Cons.IH [OF run] s show ?case by fastforce
qed

lemma prepareChange_explicit:
  assumes "prepareChange lib nia sends changes = Inr (outputs, totalSend, [], css)"
  shows "calculateMultipleChangeScriptSize lib changes = Inr css"
  using assms
  by (auto simp: prepareChange_def split: sum.splits prod.splits if_splits)

lemma prepareChange_explicit_decodes:
  assumes "prepareChange lib nia sends changes = Inr (outputs, totalSend, [], css)"
    and "d \<in> set changes"
  shows "\<exists>s. PkScriptOf lib (Address d) = Inr s \<and> int (length s) \<le> css"
  using calculateMultipleChangeScriptSize_loop_bound
    [OF prepareChange_explicit [OF assms(1), unfolded calculateMultipleChangeScriptSize_def]]
    assms(2)
  by fastforce

text \<open>
  Claim C6. With several change destinations and a change that is neither negative, zero
  nor dust, the call fails with the error for a script that is too large as soon as the
  locking script of one change destination is longer than the largest element that can
  be pushed. (The source compares the sum of the sizes of all the change scripts with
  that maximum, and no size is negative.)
\<close>

theorem C6_script_too_large:
  assumes "prepareChange lib nextInternalAddress sendDestinations changeDestinations =
             Inr (outputs, totalSendAmount, [], changeScriptSize)"
    and "\<not> word_sless (changeAmountOf lib inputs outputs totalSendAmount changeScriptSize) 0"
    and "changeAmountOf lib inputs outputs totalSendAmount changeScriptSize \<noteq> 0"
    and "\<not> IsDustAmount lib (changeAmountOf lib inputs outputs totalSendAmount changeScriptSize)
            changeScriptSize (DefaultRelayFeePerKb lib)"
    and "d \<in> set changeDestinations" and "PkScriptOf lib (Address d) = Inr script"
    and "int (length script) > MaxScriptElementSize lib"
  shows "constructCustomTransaction lib rnd nextInternalAddress inputs sendDestinations
           changeDestinations = Inl ScriptTooLarge"
proof -
  from prepareChange_explicit_decodes [OF assms(1,5)] assms(6,7)
  have "changeScriptSize > MaxScriptElementSize lib" by auto
  with assms(2-4) show ?thesis
    by (simp add: constructCustomTransaction_prepared [OF assms(1)] finishTransaction_def Let_def)
qed

theorem C6_witness:
  "prepareChange dcrLibrary (Inr ''DsChange'') [payTo ''DsAlice'' 50000000]
     [payTo ''DsBob'' 1000000, payTo ''DsWide'' 1000000] =
     Inr ([p2pkhOutput 50000000 1], 50000000, [], 2074) \<and>
   changeAmountOf dcrLibrary [inputOf 100000000] [p2pkhOutput 50000000 1] 50000000 2074
     = 49976960 \<and>
   \<not> IsDustAmount dcrLibrary 49976960 2074 (DefaultRelayFeePerKb dcrLibrary) \<and>
   PkScriptOf dcrLibrary (Address (payTo ''DsWide'' 1000000)) = Inr (replicate 2049 0x51) \<and>
   int (length (replicate 2049 (0x51::byte))) > MaxScriptElementSize dcrLibrary \<and>
   constructCustomTransaction dcrLibrary (\<lambda>k. 0) (Inr ''DsChange'') [inputOf 100000000]
     [payTo ''DsAlice'' 50000000] [payTo ''DsBob'' 1000000, payTo ''DsWide'' 1000000] =
     Inl ScriptTooLarge"
proof -
  have prep: "prepareChange dcrLibrary (Inr ''DsChange'') [payTo ''DsAlice'' 50000000]
     [payTo ''DsBob'' 1000000, payTo ''DsWide'' 1000000] =
     Inr ([p2pkhOutput 50000000 1], 50000000, [], 2074)"
    by (simp add: parse_eval prepare_eval)
  have ca: "changeAmountOf dcrLibrary [inputOf 100000000] [p2pkhOutput 50000000 1] 50000000 2074
     = 49976960"
    by (simp add: parse_eval finish_eval)
  have nodust: "\<not> IsDustAmount dcrLibrary 49976960 2074 (DefaultRelayFeePerKb dcrLibrary)"
    by (simp add: parse_eval finish_eval)
  have nonneg: "\<not> word_sless (changeAmountOf dcrLibrary [inputOf 100000000]
                    [p2pkhOutput 50000000 1] 50000000 2074) 0"
    by (simp add: ca word_sless_alt)
  have nz: "changeAmountOf dcrLibrary [inputOf 100000000] [p2pkhOutput 50000000 1] 50000000 2074 \<noteq> 0"
    by (simp add: ca)
  have nd: "\<not> IsDustAmount dcrLibrary (changeAmountOf dcrLibrary [inputOf 100000000]
                    [p2pkhOutput 50000000 1] 50000000 2074) 2074 (DefaultRelayFeePerKb dcrLibrary)"
    by (simp add: ca nodust)
  have mem: "payTo ''DsWide'' 1000000 \<in> set [payTo ''DsBob'' 1000000, payTo ''DsWide'' 1000000]"
    by simp
  have script: "PkScriptOf dcrLibrary (Address (payTo ''DsWide'' 1000000)) = Inr (replicate 2049 0x51)"
    by (simp add: parse_eval)
  have wide: "int (length (replicate 2049 (0x51::byte))) > MaxScriptElementSize dcrLibrary"
    by (simp add: dcrLibrary_def)
  from C6_script_too_large [OF prep nonneg nz nd mem script wide, of "\<lambda>k. 0"]
    prep ca nodust script wide
  show ?thesis by simp
qed





subsection \<open>Conservation\<close>

text \<open>
  Claim C1, as the code has it. For a successful call, in \<^verbatim>\<open>int64\<close> arithmetic:
  \<^item> when change is made for a single recipient (a \<open>SendMax\<close> destination or the
    generated change address), the outputs plus the fee for the returned size estimate
    are the total input;
  \<^item> when change is made for explicit change destinations, the outputs plus that fee
    plus the part of the change that no destination claims are the total input;
  \<^item> when the change is zero or dust, the outputs are the payments, the outputs plus the
    fee for the size with the change slot plus the dropped change are the total input,
    and the returned size is the one without the change slot.
\<close>

theorem C1_conservation:
  assumes "prepareChange lib nextInternalAddress sendDestinations changeDestinations =
             Inr (outputs, totalSendAmount, maxAmountRecipientAddress, changeScriptSize)"
    and "constructCustomTransaction lib rnd nextInternalAddress inputs sendDestinations
           changeDestinations = Inr tx"
  shows "(changeAmountOf lib inputs outputs totalSendAmount changeScriptSize \<noteq> 0 \<and>
          \<not> IsDustAmount lib (changeAmountOf lib inputs outputs totalSendAmount changeScriptSize)
              changeScriptSize (DefaultRelayFeePerKb lib) \<and>
          maxAmountRecipientAddress \<noteq> [] \<longrightarrow>
            sum_list (map Value (TxOut (Tx tx))) +
              FeeForSerializeSize lib (DefaultRelayFeePerKb lib) (EstimatedSignedSerializeSize tx) =
            TotalInput tx) \<and>
         (changeAmountOf lib inputs outputs totalSendAmount changeScriptSize \<noteq> 0 \<and>
          \<not> IsDustAmount lib (changeAmountOf lib inputs outputs totalSendAmount changeScriptSize)
              changeScriptSize (DefaultRelayFeePerKb lib) \<and>
          maxAmountRecipientAddress = [] \<longrightarrow>
            sum_list (map Value (TxOut (Tx tx))) +
              FeeForSerializeSize lib (DefaultRelayFeePerKb lib) (EstimatedSignedSerializeSize tx) +
              (changeAmountOf lib inputs outputs totalSendAmount changeScriptSize
                 - sum_list (map AtomAmount changeDestinations)) =
            TotalInput tx) \<and>
         (changeAmountOf lib inputs outputs totalSendAmount changeScriptSize = 0 \<or>
          IsDustAmount lib (changeAmountOf lib inputs outputs totalSendAmount changeScriptSize)
              changeScriptSize (DefaultRelayFeePerKb lib) \<longrightarrow>
            sum_list (map Value (TxOut (Tx tx))) = totalSendAmount \<and>
            sum_list (map Value (TxOut (Tx tx))) +
              maxRequiredFeeOf lib inputs outputs changeScriptSize +
              changeAmountOf lib inputs outputs totalSendAmount changeScriptSize =
            TotalInput tx \<and>
            EstimatedSignedSerializeSize tx =
              EstimateSerializeSize lib (inputScriptSizesOf lib inputs) outputs 0)"
proof -
  let ?ca = "changeAmountOf lib inputs outputs totalSendAmount changeScriptSize"
  let ?fee = "maxRequiredFeeOf lib inputs outputs changeScriptSize"
  let ?cds = "changeDestinationsFor maxAmountRecipientAddress ?ca changeDestinations"
  from prepareChange_Parse [OF assms(1)] obtain m where
    "ParseOutputsAndChangeDestination lib sendDestinations = Inr (outputs, totalSendAmount, m)" ..
  from Parse_outputs [OF this] have sent: "sum_list (map Value outputs) = totalSendAmount"
    by blast
  from assms(2) have fin: "finishTransaction lib rnd inputs changeDestinations
      (outputs, totalSendAmount, maxAmountRecipientAddress, changeScriptSize) = Inr tx"
    by (simp add: constructCustomTransaction_prepared [OF assms(1)])
  note shape = finishTransaction_Inr [OF fin]
  have materialised:
    "sum_list (map Value (TxOut (Tx tx))) +
       FeeForSerializeSize lib (DefaultRelayFeePerKb lib) (EstimatedSignedSerializeSize tx) +
       (?ca - sum_list (map AtomAmount ?cds)) = TotalInput tx"
    if "?ca \<noteq> 0" and "\<not> IsDustAmount lib ?ca changeScriptSize (DefaultRelayFeePerKb lib)"
  proof -
    from shape that obtain outputs1 totalChangeAmount where
      loop: "changeOutputs_loop lib rnd 0 ?cds (outputs, 0) = Inr (outputs1, totalChangeAmount)"
      and tx: "tx = authoredTx inputs outputs1 (totalInputAmountOf inputs)
                 (maxSignedSizeOf lib inputs outputs changeScriptSize)"
      by auto
    from changeOutputs_loop_result [OF loop] have
      ms: "mset outputs1 = mset outputs + mset (madeOutputs lib ?cds)" and
      vals: "map Value (madeOutputs lib ?cds) = map AtomAmount ?cds"
      by blast+
    have "sum_list (map Value outputs1) = sum_list (map Value (outputs @ madeOutputs lib ?cds))"
      by (rule sum_list_Value_mset) (simp add: ms)
    with vals sent have "sum_list (map Value outputs1) =
        totalSendAmount + sum_list (map AtomAmount ?cds)"
      by simp
    then show ?thesis
      by (simp add: tx authoredTx_def changeAmountOf_def maxRequiredFeeOf_def)
  qed
  have dropped:
    "sum_list (map Value (TxOut (Tx tx))) = totalSendAmount \<and>
     sum_list (map Value (TxOut (Tx tx))) + ?fee + ?ca = TotalInput tx \<and>
     EstimatedSignedSerializeSize tx =
       EstimateSerializeSize lib (inputScriptSizesOf lib inputs) outputs 0"
    if "?ca = 0 \<or> IsDustAmount lib ?ca changeScriptSize (DefaultRelayFeePerKb lib)"
  proof -
    from shape that have tx: "tx = authoredTx inputs outputs (totalInputAmountOf inputs)
        (EstimateSerializeSize lib (inputScriptSizesOf lib inputs) outputs 0)"
      by auto
    have "totalSendAmount + ?fee + ?ca = totalInputAmountOf inputs"
      by (simp add: changeAmountOf_def)
    with sent show ?thesis by (simp add: tx authoredTx_def)
  qed
  have single: "?ca - sum_list (map AtomAmount ?cds) = 0" if "maxAmountRecipientAddress \<noteq> []"
    using that by (simp add: changeDestinationsFor_def)
  have explicit: "?cds = changeDestinations" if "maxAmountRecipientAddress = []"
    using that by (simp add: changeDestinationsFor_def)
  show ?thesis
  proof (intro conjI impI)
    assume a: "?ca \<noteq> 0 \<and> \<not> IsDustAmount lib ?ca changeScriptSize (DefaultRelayFeePerKb lib) \<and>
               maxAmountRecipientAddress \<noteq> []"
    with materialised single
    show "sum_list (map Value (TxOut (Tx tx))) +
              FeeForSerializeSize lib (DefaultRelayFeePerKb lib) (EstimatedSignedSerializeSize tx) =
            TotalInput tx"
      by fastforce
  next
    assume a: "?ca \<noteq> 0 \<and> \<not> IsDustAmount lib ?ca changeScriptSize (DefaultRelayFeePerKb lib) \<and>
               maxAmountRecipientAddress = []"
    with materialised explicit
    show "sum_list (map Value (TxOut (Tx tx))) +
              FeeForSerializeSize lib (DefaultRelayFeePerKb lib) (EstimatedSignedSerializeSize tx) +
              (?ca - sum_list (map AtomAmount changeDestinations)) = TotalInput tx"
      by fastforce
  next
    assume a: "?ca = 0 \<or> IsDustAmount lib ?ca changeScriptSize (DefaultRelayFeePerKb lib)"
    from dropped [OF a]
    show "sum_list (map Value (TxOut (Tx tx))) = totalSendAmount"
      and "sum_list (map Value (TxOut (Tx tx))) + ?fee + ?ca = TotalInput tx"
      and "EstimatedSignedSerializeSize tx =
             EstimateSerializeSize lib (inputScriptSizesOf lib inputs) outputs 0"
      by blast+
  qed
qed

theorem C1_witness:
  "prepareChange dcrLibrary (Inr ''DsChange'') [payTo ''DsAlice'' 50000000] [] =
     Inr ([p2pkhOutput 50000000 1], 50000000, ''DsChange'', 25) \<and>
   constructCustomTransaction dcrLibrary (\<lambda>k. 0) (Inr ''DsChange'') [inputOf 100000000]
     [payTo ''DsAlice'' 50000000] [] =
     Inr (authoredTx [inputOf 100000000] [p2pkhOutput 49997470 3, p2pkhOutput 50000000 1]
            100000000 253) \<and>
   changeAmountOf dcrLibrary [inputOf 100000000] [p2pkhOutput 50000000 1] 50000000 25
     = 49997470 \<and>
   \<not> IsDustAmount dcrLibrary 49997470 25 (DefaultRelayFeePerKb dcrLibrary) \<and>
   sum_list (map Value [p2pkhOutput 49997470 3, p2pkhOutput 50000000 1]) +
     FeeForSerializeSize dcrLibrary (DefaultRelayFeePerKb dcrLibrary) 253 = 100000000"
proof -
  have prep: "prepareChange dcrLibrary (Inr ''DsChange'') [payTo ''DsAlice'' 50000000] [] =
     Inr ([p2pkhOutput 50000000 1], 50000000, ''DsChange'', 25)"
    by (simp add: parse_eval prepare_eval)
  have run: "constructCustomTransaction dcrLibrary (\<lambda>k. 0) (Inr ''DsChange'') [inputOf 100000000]
     [payTo ''DsAlice'' 50000000] [] =
     Inr (authoredTx [inputOf 100000000] [p2pkhOutput 49997470 3, p2pkhOutput 50000000 1]
            100000000 253)"
    by (simp add: parse_eval prepare_eval finish_eval)
  have ca: "changeAmountOf dcrLibrary [inputOf 100000000] [p2pkhOutput 50000000 1] 50000000 25
     = 49997470"
    by (simp add: parse_eval finish_eval)
  have nodust: "\<not> IsDustAmount dcrLibrary 49997470 25 (DefaultRelayFeePerKb dcrLibrary)"
    by (simp add: parse_eval finish_eval)
  from C1_conservation [OF prep run] ca nodust
  have "sum_list (map Value [p2pkhOutput 49997470 3, p2pkhOutput 50000000 1]) +
     FeeForSerializeSize dcrLibrary (DefaultRelayFeePerKb dcrLibrary) 253 = 100000000"
    by (simp add: authoredTx_def)
  with prep run ca nodust show ?thesis by blast
qed

text \<open>
  Claim C1 as stated fails when dust is dropped: one input of 52600, one payment of
  50000 and a generated change address. The fee for the size with the change slot (253
  bytes) is 2530, the change of 70 is dust, and the returned size is 217 bytes, whose
  fee is 2170: outputs and fee make 52170, not 52600. It also fails with explicit change
  destinations that claim less than the change: one input of 100000000, one payment of
  50000000 and one change destination with 10000000 give outputs of 60000000 and a
  returned size of 253 bytes, whose fee is 2530.
\<close>

theorem C1_counterexample:
  "constructCustomTransaction dcrLibrary (\<lambda>k. 0) (Inr ''DsChange'') [inputOf 52600]
     [payTo ''DsAlice'' 50000] [] =
     Inr (authoredTx [inputOf 52600] [p2pkhOutput 50000 1] 52600 217) \<and>
   sum_list (map Value (TxOut (Tx (authoredTx [inputOf 52600] [p2pkhOutput 50000 1] 52600 217)))) +
     FeeForSerializeSize dcrLibrary (DefaultRelayFeePerKb dcrLibrary)
       (EstimatedSignedSerializeSize (authoredTx [inputOf 52600] [p2pkhOutput 50000 1] 52600 217))
     = 52170 \<and>
   TotalInput (authoredTx [inputOf 52600] [p2pkhOutput 50000 1] 52600 217) = 52600 \<and>
   (52170 :: int64) \<noteq> 52600 \<and>
   constructCustomTransaction dcrLibrary (\<lambda>k. 0) (Inr ''DsChange'') [inputOf 100000000]
     [payTo ''DsAlice'' 50000000] [payTo ''DsBob'' 10000000] =
     Inr (authoredTx [inputOf 100000000] [p2pkhOutput 10000000 2, p2pkhOutput 50000000 1]
            100000000 253) \<and>
   sum_list (map Value (TxOut (Tx (authoredTx [inputOf 100000000]
       [p2pkhOutput 10000000 2, p2pkhOutput 50000000 1] 100000000 253)))) +
     FeeForSerializeSize dcrLibrary (DefaultRelayFeePerKb dcrLibrary)
       (EstimatedSignedSerializeSize (authoredTx [inputOf 100000000]
          [p2pkhOutput 10000000 2, p2pkhOutput 50000000 1] 100000000 253))
     = 60002530 \<and>
   TotalInput (authoredTx [inputOf 100000000]
       [p2pkhOutput 10000000 2, p2pkhOutput 50000000 1] 100000000 253) = 100000000 \<and>
   (60002530 :: int64) \<noteq> 100000000"
  by (simp add: parse_eval prepare_eval finish_eval)

subsection \<open>The position of the change output\<close>

lemma madeOutputs_append:
  "madeOutputs lib (xs @ ys) = madeOutputs lib xs @ madeOutputs lib ys"
  by (simp add: madeOutputs_def)

text \<open>
  Claim C10. Take a call that returns a transaction with at least one payment output and
  with change made; \<open>changeDestination\<close> is the last change destination. Then there are
  two sources of randomness for which the call succeeds with the output of that
  destination at different indices: with one it is the first output, with the other
  all change outputs follow the payment outputs and it is the last.
\<close>

theorem C10_change_position_depends_on_randomness:
  assumes "prepareChange lib nextInternalAddress sendDestinations changeDestinations =
             Inr (outputs, totalSendAmount, maxAmountRecipientAddress, changeScriptSize)"
    and "constructCustomTransaction lib rnd nextInternalAddress inputs sendDestinations
           changeDestinations = Inr tx"
    and "changeAmountOf lib inputs outputs totalSendAmount changeScriptSize \<noteq> 0"
    and "\<not> IsDustAmount lib (changeAmountOf lib inputs outputs totalSendAmount changeScriptSize)
            changeScriptSize (DefaultRelayFeePerKb lib)"
    and "outputs \<noteq> []"
    and "changeDestinationsFor maxAmountRecipientAddress
           (changeAmountOf lib inputs outputs totalSendAmount changeScriptSize)
           changeDestinations = earlier @ [changeDestination]"
  shows "\<exists>rnd1 rnd2 tx1 tx2 changeOutput i j.
           MakeTxOutput lib (Address changeDestination) (AtomAmount changeDestination) =
             Inr changeOutput \<and>
           constructCustomTransaction lib rnd1 nextInternalAddress inputs sendDestinations
             changeDestinations = Inr tx1 \<and>
           constructCustomTransaction lib rnd2 nextInternalAddress inputs sendDestinations
             changeDestinations = Inr tx2 \<and>
           TxOut (Tx tx2) = outputs @ madeOutputs lib earlier @ [changeOutput] \<and>
           length (TxOut (Tx tx1)) = length (TxOut (Tx tx2)) \<and>
           i < length (TxOut (Tx tx1)) \<and> j < length (TxOut (Tx tx2)) \<and>
           TxOut (Tx tx1) ! i = changeOutput \<and> TxOut (Tx tx2) ! j = changeOutput \<and>
           i \<noteq> j"
proof -
  let ?ca = "changeAmountOf lib inputs outputs totalSendAmount changeScriptSize"
  let ?cds = "earlier @ [changeDestination]"
  let ?sum = "sum_list (map AtomAmount ?cds)"
  let ?rnd1 = "\<lambda>k::nat. 0::nat"
  let ?rnd2 = "\<lambda>k::nat. length outputs + k"
  let ?size = "maxSignedSizeOf lib inputs outputs changeScriptSize"
  note run = constructCustomTransaction_prepared [OF assms(1)]
  from assms(2) have "finishTransaction lib rnd inputs changeDestinations
      (outputs, totalSendAmount, maxAmountRecipientAddress, changeScriptSize) = Inr tx"
    by (simp add: run)
  from finishTransaction_Inr [OF this] assms(3,4,6) obtain outputs0 totalChangeAmount where
    nonneg: "\<not> word_sless ?ca 0" and fits: "\<not> changeScriptSize > MaxScriptElementSize lib" and
    loop0: "changeOutputs_loop lib rnd 0 ?cds (outputs, 0) = Inr (outputs0, totalChangeAmount)" and
    enough: "\<not> word_sless ?ca totalChangeAmount"
    by auto
  from changeOutputs_loop_result [OF loop0] have
    decodes: "\<forall>d\<in>set ?cds. \<exists>s. PkScriptOf lib (Address d) = Inr s" and
    total: "totalChangeAmount = ?sum"
    by simp_all
  from enough total have enough': "\<not> word_sless ?ca (0 + ?sum)" by simp
  \<comment> \<open>first stream: zeros\<close>
  from changeOutputs_loop_succeeds [OF decodes, of ?rnd1 0 outputs 0] obtain outputs1 where
    loop1: "changeOutputs_loop lib ?rnd1 0 ?cds (outputs, 0) = Inr (outputs1, 0 + ?sum)"
    by blast
  from changeOutputs_loop_last_first [OF loop1] have
    first: "MakeTxOutput lib (Address changeDestination) (AtomAmount changeDestination) =
              Inr (outputs1 ! 0)" .
  from changeOutputs_loop_result [OF loop1] have
    ms1: "mset outputs1 = mset outputs + mset (madeOutputs lib ?cds)" and
    len: "length (madeOutputs lib ?cds) = length ?cds"
    by blast+
  from ms1 have "size (mset outputs1) = size (mset outputs + mset (madeOutputs lib ?cds))"
    by simp
  with len have len1: "length outputs1 = length outputs + length earlier + 1"
    by simp
  have "changeOutputs_loop lib ?rnd1 0
          (changeDestinationsFor maxAmountRecipientAddress ?ca changeDestinations) (outputs, 0) =
        Inr (outputs1, 0 + ?sum)"
    unfolding assms(6) by (rule loop1)
  from finishTransaction_materialised [OF nonneg assms(3,4) fits this] enough'
  have run1: "constructCustomTransaction lib ?rnd1 nextInternalAddress inputs sendDestinations
      changeDestinations = Inr (authoredTx inputs outputs1 (totalInputAmountOf inputs) ?size)"
    by (simp add: run)
  \<comment> \<open>second stream: every change output stays where it is appended\<close>
  have loop2: "changeOutputs_loop lib ?rnd2 0 ?cds (outputs, 0) =
                 Inr (outputs @ madeOutputs lib ?cds, 0 + ?sum)"
    by (rule changeOutputs_loop_in_order [OF decodes]) simp
  have "changeOutputs_loop lib ?rnd2 0
          (changeDestinationsFor maxAmountRecipientAddress ?ca changeDestinations) (outputs, 0) =
        Inr (outputs @ madeOutputs lib ?cds, 0 + ?sum)"
    unfolding assms(6) by (rule loop2)
  from finishTransaction_materialised [OF nonneg assms(3,4) fits this] enough'
  have run2: "constructCustomTransaction lib ?rnd2 nextInternalAddress inputs sendDestinations
      changeDestinations =
      Inr (authoredTx inputs (outputs @ madeOutputs lib ?cds) (totalInputAmountOf inputs) ?size)"
    by (simp add: run)
  from first have made: "madeOutputs lib ?cds = madeOutputs lib earlier @ [outputs1 ! 0]"
    by (simp add: madeOutputs_append madeOutputs_Cons madeOutputs_Nil)
  from len made have len_earlier: "length (madeOutputs lib earlier) = length earlier"
    by simp
  let ?tx1 = "authoredTx inputs outputs1 (totalInputAmountOf inputs) ?size"
  let ?tx2 = "authoredTx inputs (outputs @ madeOutputs lib ?cds) (totalInputAmountOf inputs) ?size"
  let ?j = "length outputs + length earlier"
  have out2: "TxOut (Tx ?tx2) = outputs @ madeOutputs lib earlier @ [outputs1 ! 0]"
    by (simp add: authoredTx_def made)
  have lens: "length (TxOut (Tx ?tx1)) = length (TxOut (Tx ?tx2))"
    by (simp add: authoredTx_def len1 made len_earlier)
  have i: "0 < length (TxOut (Tx ?tx1))" and j: "?j < length (TxOut (Tx ?tx2))"
    by (simp_all add: authoredTx_def len1 made len_earlier)
  have at1: "TxOut (Tx ?tx1) ! 0 = outputs1 ! 0"
    by (simp add: authoredTx_def)
  have "(outputs @ madeOutputs lib earlier @ [outputs1 ! 0]) ! ?j = outputs1 ! 0"
    using len_earlier by (simp add: nth_append)
  with out2 have at2: "TxOut (Tx ?tx2) ! ?j = outputs1 ! 0" by simp
  from assms(5) have neq: "0 \<noteq> ?j" by simp
  from first run1 run2 out2 lens i j at1 at2 neq show ?thesis by blast
qed

theorem C10_witness:
  "prepareChange dcrLibrary (Inr ''DsChange'') [payTo ''DsAlice'' 50000000] [] =
     Inr ([p2pkhOutput 50000000 1], 50000000, ''DsChange'', 25) \<and>
   constructCustomTransaction dcrLibrary (\<lambda>k. 0) (Inr ''DsChange'') [inputOf 100000000]
     [payTo ''DsAlice'' 50000000] [] =
     Inr (authoredTx [inputOf 100000000] [p2pkhOutput 49997470 3, p2pkhOutput 50000000 1]
            100000000 253) \<and>
   constructCustomTransaction dcrLibrary (\<lambda>k. 1 + k) (Inr ''DsChange'') [inputOf 100000000]
     [payTo ''DsAlice'' 50000000] [] =
     Inr (authoredTx [inputOf 100000000] [p2pkhOutput 50000000 1, p2pkhOutput 49997470 3]
            100000000 253) \<and>
   (\<exists>rnd1 rnd2 tx1 tx2 i j.
      constructCustomTransaction dcrLibrary rnd1 (Inr ''DsChange'') [inputOf 100000000]
        [payTo ''DsAlice'' 50000000] [] = Inr tx1 \<and>
      constructCustomTransaction dcrLibrary rnd2 (Inr ''DsChange'') [inputOf 100000000]
        [payTo ''DsAlice'' 50000000] [] = Inr tx2 \<and>
      TxOut (Tx tx2) = [p2pkhOutput 50000000 1, p2pkhOutput 49997470 3] \<and>
      TxOut (Tx tx1) ! i = p2pkhOutput 49997470 3 \<and>
      TxOut (Tx tx2) ! j = p2pkhOutput 49997470 3 \<and> i \<noteq> j)"
proof -
  have prep: "prepareChange dcrLibrary (Inr ''DsChange'') [payTo ''DsAlice'' 50000000] [] =
     Inr ([p2pkhOutput 50000000 1], 50000000, ''DsChange'', 25)"
    by (simp add: parse_eval prepare_eval)
  have run: "constructCustomTransaction dcrLibrary (\<lambda>k. 0) (Inr ''DsChange'') [inputOf 100000000]
     [payTo ''DsAlice'' 50000000] [] =
     Inr (authoredTx [inputOf 100000000] [p2pkhOutput 49997470 3, p2pkhOutput 50000000 1]
            100000000 253)"
    by (simp add: parse_eval prepare_eval finish_eval)
  have run': "constructCustomTransaction dcrLibrary (\<lambda>k. 1 + k) (Inr ''DsChange'') [inputOf 100000000]
     [payTo ''DsAlice'' 50000000] [] =
     Inr (authoredTx [inputOf 100000000] [p2pkhOutput 50000000 1, p2pkhOutput 49997470 3]
            100000000 253)"
    by (simp add: parse_eval prepare_eval finish_eval)
  have ca: "changeAmountOf dcrLibrary [inputOf 100000000] [p2pkhOutput 50000000 1] 50000000 25
     = 49997470"
    by (simp add: parse_eval finish_eval)
  have nz: "changeAmountOf dcrLibrary [inputOf 100000000] [p2pkhOutput 50000000 1] 50000000 25 \<noteq> 0"
    by (simp add: ca)
  have nd: "\<not> IsDustAmount dcrLibrary (changeAmountOf dcrLibrary [inputOf 100000000]
                    [p2pkhOutput 50000000 1] 50000000 25) 25 (DefaultRelayFeePerKb dcrLibrary)"
    by (simp add: parse_eval finish_eval)
  have payments: "[p2pkhOutput 50000000 1] \<noteq> []"
    by simp
  have cds: "changeDestinationsFor ''DsChange''
               (changeAmountOf dcrLibrary [inputOf 100000000] [p2pkhOutput 50000000 1] 50000000 25) []
             = [] @ [payTo ''DsChange'' 49997470]"
    by (simp add: ca changeDestinationsFor_def payTo_def)
  have mk: "MakeTxOutput dcrLibrary (Address (payTo ''DsChange'' 49997470))
              (AtomAmount (payTo ''DsChange'' 49997470)) = Inr (p2pkhOutput 49997470 3)"
    by (simp add: parse_eval)
  from C10_change_position_depends_on_randomness [OF prep run nz nd payments cds]
  obtain rnd1 rnd2 tx1 tx2 c i j where
    c: "MakeTxOutput dcrLibrary (Address (payTo ''DsChange'' 49997470))
          (AtomAmount (payTo ''DsChange'' 49997470)) = Inr c" and
    run1: "constructCustomTransaction dcrLibrary rnd1 (Inr ''DsChange'') [inputOf 100000000]
        [payTo ''DsAlice'' 50000000] [] = Inr tx1" and
    run2: "constructCustomTransaction dcrLibrary rnd2 (Inr ''DsChange'') [inputOf 100000000]
        [payTo ''DsAlice'' 50000000] [] = Inr tx2" and
    out2: "TxOut (Tx tx2) = [p2pkhOutput 50000000 1] @ madeOutputs dcrLibrary [] @ [c]" and
    at1: "TxOut (Tx tx1) ! i = c" and at2: "TxOut (Tx tx2) ! j = c" and neq: "i \<noteq> j"
    by blast
  from c mk have c': "c = p2pkhOutput 49997470 3" by simp
  from out2 have out2': "TxOut (Tx tx2) = [p2pkhOutput 50000000 1, p2pkhOutput 49997470 3]"
    by (simp add: c' madeOutputs_Nil)
  from run1 run2 out2' at1 at2 neq
  have "\<exists>rnd1 rnd2 tx1 tx2 i j.
      constructCustomTransaction dcrLibrary rnd1 (Inr ''DsChange'') [inputOf 100000000]
        [payTo ''DsAlice'' 50000000] [] = Inr tx1 \<and>
      constructCustomTransaction dcrLibrary rnd2 (Inr ''DsChange'') [inputOf 100000000]
        [payTo ''DsAlice'' 50000000] [] = Inr tx2 \<and>
      TxOut (Tx tx2) = [p2pkhOutput 50000000 1, p2pkhOutput 49997470 3] \<and>
      TxOut (Tx tx1) ! i = p2pkhOutput 49997470 3 \<and>
      TxOut (Tx tx2) ! j = p2pkhOutput 49997470 3 \<and> i \<noteq> j"
    unfolding c' by blast
  with prep run run' show ?thesis by blast
qed

end
